theory Spec2Isabelle
  imports Main "HOL-Library.Sublist" "HOL-Library.List_Lexorder"
begin

section \<open>The page: live document, storage, network\<close>

text \<open>
  The program is browser script. Everything it reads from or writes to the browser is made
  explicit here: the live document (doctype, root element, style sheets), the page-scoped
  key/value store \<open>window.sessionStorage\<close>, the list of network requests made, and the
  mutation observers installed. Strings are \<open>string\<close>; script-level \<open>null\<close> is \<open>None\<close>.
\<close>

datatype jsval = JUndefined | JNull | JString string | JObject

record elem =
  tagName :: string
  attrs :: "(string \<times> string) list"
  computed :: "(string \<times> string) list"
  width :: nat
  height :: nat

text \<open>
  A live node. An element carries its tag name, its content attributes in order, the
  declaration \<open>window.getComputedStyle(node, null)\<close> reports for it (property names in index
  order, each with its value), and the layout numbers \<open>element.width\<close>, \<open>element.height\<close>
  that an image reports. A text node carries its \<open>nodeValue\<close>.
\<close>

datatype node = Element elem "node list" | Text string | Comment string

text \<open>
  A rule of a sheet, with the two fields the script reads. For a rule without a selector the
  script hands \<open>undefined\<close> to the query, which converts to the text \<open>undefined\<close>: the
  field holds that text then.
\<close>

record cssrule =
  selectorText :: string
  cssText :: string

text \<open>
  A style sheet of \<open>document.styleSheets\<close>: reading \<open>cssRules\<close> either gives the rule list
  or throws (a cross-origin sheet), which is \<open>None\<close> here; \<open>href\<close> is the sheet's address.
\<close>

record sheet =
  cssRules :: "cssrule list option"
  href :: string

datatype error =
  FetchError string | TypeError string | ReferenceError string | SyntaxError string
  | SecurityError | QuotaExceededError

datatype storage_op = GetItem string | SetItem string string | RemoveItem string

text \<open>
  \<open>storageAvailable\<close> says whether the page may use \<open>window.sessionStorage\<close>: where it may
  not, reading that property throws a SecurityError. \<open>storageAccepts store k v\<close> says whether
  the store, holding \<open>store\<close>, has room to take \<open>v\<close> under \<open>k\<close>: where it has not, \<open>setItem\<close>
  throws a QuotaExceededError and stores nothing.
\<close>

record world =
  doctype :: "string option"
  head :: jsval
  documentElement :: node
  styleSheets :: "sheet list"
  sessionStorage :: "string \<rightharpoonup> string"
  storageLog :: "storage_op list"
  storageAvailable :: bool
  storageAccepts :: "(string \<rightharpoonup> string) \<Rightarrow> string \<Rightarrow> string \<Rightarrow> bool"
  requests :: "string list"
  observers :: nat

text \<open>
  The three storage calls the script makes. Each gives its result, or the error thrown,
  and the world after it.
\<close>

definition getItem :: "string \<Rightarrow> world \<Rightarrow> (error + string option) \<times> world" where
  "getItem k w =
     (if \<not> storageAvailable w then (Inl SecurityError, w)
      else (Inr (sessionStorage w k), w\<lparr>storageLog := storageLog w @ [GetItem k]\<rparr>))"

definition setItem :: "string \<Rightarrow> string \<Rightarrow> world \<Rightarrow> (error + unit) \<times> world" where
  "setItem k v w =
     (if \<not> storageAvailable w then (Inl SecurityError, w)
      else if \<not> storageAccepts w (sessionStorage w) k v
      then (Inl QuotaExceededError, w\<lparr>storageLog := storageLog w @ [SetItem k v]\<rparr>)
      else (Inr (),
            w\<lparr>sessionStorage := (sessionStorage w)(k \<mapsto> v),
              storageLog := storageLog w @ [SetItem k v]\<rparr>))"

definition removeItem :: "string \<Rightarrow> world \<Rightarrow> (error + unit) \<times> world" where
  "removeItem k w =
     (if \<not> storageAvailable w then (Inl SecurityError, w)
      else (Inr (),
            w\<lparr>sessionStorage := (sessionStorage w)(k := None),
              storageLog := storageLog w @ [RemoveItem k]\<rparr>))"

section \<open>domObserver.js: trackMutation\<close>

text \<open>
  The callback handed to \<open>new MutationObserver\<close>: it runs on every childList or subtree
  mutation under the observed root.
\<close>

definition mutationCallback :: "world \<Rightarrow> (error + unit) \<times> world" where
  "mutationCallback w = removeItem ''dom_snapshot'' w"

text \<open>
  The function the immediately-invoked expression returns (source lines 6 to 18). The flag
  is \<open>window.MutationObserver\<close> being present.
\<close>

definition observeDOM :: "bool \<Rightarrow> world \<Rightarrow> (error + unit) \<times> world" where
  "observeDOM mutationObserver w =
     (if mutationObserver
      then setItem ''allow_snapshot'' ''true'' (w\<lparr>observers := Suc (observers w)\<rparr>)
      else setItem ''allow_snapshot'' ''false'' w)"

text \<open>
  The immediately-invoked expression of lines 3 to 19: it removes the stored snapshot and
  evaluates to the function above, which is bound to the block-local constant and never called.
\<close>

definition observeDOM_iife ::
  "world \<Rightarrow> (error + (bool \<Rightarrow> world \<Rightarrow> (error + unit) \<times> world)) \<times> world" where
  "observeDOM_iife w =
     (case removeItem ''dom_snapshot'' w of
        (Inl e, w1) \<Rightarrow> (Inl e, w1)
      | (Inr u, w1) \<Rightarrow> (Inr observeDOM, w1))"

text \<open>
  \<open>typeof observeDOM\<close> in the condition of line 2: the constant of line 3 is local to the
  block of the \<open>if\<close>, so the name in the condition is not bound and \<open>typeof\<close> gives the string
  \<open>"undefined"\<close>. The condition compares that string to the value \<open>undefined\<close> with \<open>===\<close>.
\<close>

definition typeof_observeDOM :: jsval where
  "typeof_observeDOM = JString ''undefined''"

definition strict_equals :: "jsval \<Rightarrow> jsval \<Rightarrow> bool" where
  "strict_equals a b = (a = b)"

definition trackMutation :: "bool \<Rightarrow> world \<Rightarrow> (error + unit) \<times> world" where
  "trackMutation mutationObserver w =
     (if strict_equals typeof_observeDOM JUndefined
      then (case observeDOM_iife w of
              (Inl e, w1) \<Rightarrow> (Inl e, w1)
            | (Inr observeDOM', w1) \<Rightarrow> (Inr (), w1))
      else (Inr (), w))"

section \<open>index.js: strings\<close>

text \<open>
  Characters are compared by code, as \<open>charCodeAt\<close> does. Case conversion is the one of
  the ASCII letters: tag names are ASCII.
\<close>

definition toLowerCase :: "string \<Rightarrow> string" where
  "toLowerCase s =
     map (\<lambda>c. case map_of (zip ''ABCDEFGHIJKLMNOPQRSTUVWXYZ'' ''abcdefghijklmnopqrstuvwxyz'') c of
                 None \<Rightarrow> c | Some d \<Rightarrow> d) s"

definition toUpperCase :: "string \<Rightarrow> string" where
  "toUpperCase s =
     map (\<lambda>c. case map_of (zip ''abcdefghijklmnopqrstuvwxyz'' ''ABCDEFGHIJKLMNOPQRSTUVWXYZ'') c of
                 None \<Rightarrow> c | Some d \<Rightarrow> d) s"

text \<open>\<open>haystack.indexOf(needle)\<close>: the first position where needle starts, or -1.\<close>

fun indexOf :: "string \<Rightarrow> string \<Rightarrow> int" where
  "indexOf [] needle = (if needle = [] then 0 else - 1)"
| "indexOf (c # cs) needle =
     (if prefix needle (c # cs) then 0
      else (let r = indexOf cs needle in if r = - 1 then - 1 else r + 1))"

text \<open>\<open>s.split(sep)\<close> for a one-character separator, and \<open>xs.join(sep)\<close>.\<close>

fun js_split :: "char \<Rightarrow> string \<Rightarrow> string list" where
  "js_split sep [] = [[]]"
| "js_split sep (c # cs) =
     (if c = sep then [] # js_split sep cs
      else (case js_split sep cs of [] \<Rightarrow> [[c]] | x # xs \<Rightarrow> (c # x) # xs))"

fun join :: "string \<Rightarrow> string list \<Rightarrow> string" where
  "join sep [] = []"
| "join sep [x] = x"
| "join sep (x # y # ys) = x @ sep @ join sep (y # ys)"

text \<open>
  \<open>Array.prototype.sort()\<close> without a comparator orders the elements by their string
  conversion, code unit by code unit; an array converts to its elements joined by commas.
\<close>

definition sort_arrays :: "string list list \<Rightarrow> string list list" where
  "sort_arrays xs = sort_key (\<lambda>a. map (of_char :: char \<Rightarrow> nat) (join '','' a)) xs"

text \<open>The decimal text of a number, as written into a numeric content attribute.\<close>

fun decimal :: "nat \<Rightarrow> string" where
  "decimal n = (if n < 10 then [''0123456789'' ! n] else decimal (n div 10) @ [''0123456789'' ! (n mod 10)])"

section \<open>index.js: style queries\<close>

definition noStyleTags :: "string set" where
  "noStyleTags = {''BASE'', ''HEAD'', ''HTML'', ''META'', ''NOFRAME'', ''NOSCRIPT'', ''PARAM'',
     ''SCRIPT'', ''STYLE'', ''TITLE'', ''LINK''}"

definition ignoreTags :: "string set" where
  "ignoreTags = {''SCRIPT'', ''NOSCRIPT'', ''STYLE'', ''LINK''}"

type_synonym style = "(string \<times> string) list"

definition getComputedStyle :: "elem \<Rightarrow> style" where
  "getComputedStyle e = computed e"

text \<open>The declaration's \<open>item(index)\<close>, \<open>getPropertyValue(name)\<close> and \<open>length\<close>.\<close>

definition item :: "style \<Rightarrow> nat \<Rightarrow> string" where
  "item d i = (if i < length d then fst (d ! i) else [])"

definition propertyValue :: "style \<Rightarrow> string \<Rightarrow> string" where
  "propertyValue d name = (case map_of d name of None \<Rightarrow> [] | Some v \<Rightarrow> v)"

text \<open>\<open>getComputedStyle\<close> gives a declaration object, which is never \<open>undefined\<close>.\<close>

definition hasStyle :: "elem \<Rightarrow> bool" where
  "hasStyle e = True"

definition getPropertyName :: "elem \<Rightarrow> nat \<Rightarrow> string" where
  "getPropertyName e index = item (getComputedStyle e) index"

definition getPropertyValue :: "elem \<Rightarrow> string \<Rightarrow> string" where
  "getPropertyValue e name = propertyValue (getComputedStyle e) name"

definition numberProperties :: "elem \<Rightarrow> nat" where
  "numberProperties e = length (getComputedStyle e)"

text \<open>The default style handed over is what \<open>Map.get\<close> returned: \<open>None\<close> is \<open>undefined\<close>.\<close>

definition isDefaultStyle :: "string \<Rightarrow> string \<Rightarrow> style option \<Rightarrow> bool" where
  "isDefaultStyle cssPropName propertyValue' defaultStyle =
     (case defaultStyle of None \<Rightarrow> False
      | Some d \<Rightarrow> propertyValue' = propertyValue d cssPropName)"

definition getAttribute :: "elem \<Rightarrow> string \<Rightarrow> string option" where
  "getAttribute e name = map_of (attrs e) name"

definition isInlineStyle :: "elem \<Rightarrow> string \<Rightarrow> bool" where
  "isInlineStyle e cssPropName =
     (case getAttribute e ''style'' of None \<Rightarrow> False
      | Some inlineStyle \<Rightarrow>
          if inlineStyle = [] then False else indexOf inlineStyle cssPropName \<noteq> - 1)"

text \<open>
  The cache key is \<open>JSON.stringify\<close> of an object with the three fields tag, id and classes.
  Serialisation of such an object is injective, so the key is kept as the triple itself.
  The classes field is the array \<open>[class.split(' ')].sort()\<close>: an array holding one array.
\<close>

datatype style_key = StyleKey string "string option" "string list list"

type_synonym style_cache = "style_key \<rightharpoonup> style"

definition styleKey :: "elem \<Rightarrow> style_key" where
  "styleKey e = StyleKey (tagName e) (getAttribute e ''id'')
     (case getAttribute e ''class'' of None \<Rightarrow> []
      | Some c \<Rightarrow> if c = [] then [] else sort_arrays [js_split CHR '' '' c])"

definition getDefaultStyle :: "style_cache \<Rightarrow> elem \<Rightarrow> style option \<times> style_cache" where
  "getDefaultStyle defaultStylesCache e =
     (let key = styleKey e;
          cache = (if defaultStylesCache key = None
                   then defaultStylesCache(key \<mapsto> getComputedStyle e)
                   else defaultStylesCache)
      in (cache key, cache))"

section \<open>index.js: the tree cloner\<close>

text \<open>
  The clone under construction. An element clone carries its tag name, its content
  attributes, the assignments \<open>clone.style[name] = value\<close> made to it, in order, and its
  children. \<open>CMarkup\<close> stands for the nodes that assigning \<open>innerHTML\<close> parses from a text.
\<close>

datatype cnode =
  CElement string "(string \<times> string) list" "(string \<times> string) list" "cnode list"
  | CText string
  | CComment string
  | CMarkup string

fun isElement :: "node \<Rightarrow> bool" where
  "isElement (Element e cs) = True"
| "isElement n = False"

text \<open>
  A node is visited together with the siblings before it and after it, in document order.
  \<open>previousElementSibling\<close> is the nearest element among the former, \<open>nextElementSibling\<close>
  the nearest among the latter; \<open>None\<close> is \<open>null\<close>.
\<close>

definition previousElementSibling :: "node list \<Rightarrow> node option" where
  "previousElementSibling before = List.find isElement (rev before)"

definition nextElementSibling :: "node list \<Rightarrow> node option" where
  "nextElementSibling after = List.find isElement after"

fun hasTagName :: "node \<Rightarrow> string \<Rightarrow> bool" where
  "hasTagName (Element e cs) tagName' = (toLowerCase (tagName e) = toLowerCase tagName')"
| "hasTagName n tagName' = False"

definition isBlankCharacter :: "nat \<Rightarrow> bool" where
  "isBlankCharacter charCode =
     (9 = charCode \<or> 32 = charCode \<or> 11 = charCode \<or> 12 = charCode \<or> 10 = charCode \<or> 13 = charCode)"

text \<open>The while loop of isEmptyTextNode, from position \<open>index\<close>.\<close>

function blankFrom :: "string \<Rightarrow> nat \<Rightarrow> bool" where
  "blankFrom nodeValue index =
     (if index < length nodeValue
      then (if \<not> isBlankCharacter (of_char (nodeValue ! index)) then False
            else blankFrom nodeValue (index + 1))
      else True)"
  by pat_completeness auto
termination
  by (relation "measure (\<lambda>(nodeValue, index). length nodeValue - index)") auto

fun isEmptyTextNode :: "node list \<Rightarrow> node list \<Rightarrow> node \<Rightarrow> bool" where
  "isEmptyTextNode before after (Text nodeValue) =
     (if (case previousElementSibling before of None \<Rightarrow> False | Some p \<Rightarrow> hasTagName p ''span'')
         \<or> (case nextElementSibling after of None \<Rightarrow> False | Some n \<Rightarrow> hasTagName n ''span'')
      then False
      else blankFrom nodeValue 0)"
| "isEmptyTextNode before after n = False"

text \<open>A node taken from a child list is never \<open>undefined\<close>, so the first test of isIgnored is false.\<close>

fun isIgnored :: "node list \<Rightarrow> node list \<Rightarrow> node \<Rightarrow> bool" where
  "isIgnored before after (Element e cs) =
     (if isEmptyTextNode before after (Element e cs) then True
      else toUpperCase (tagName e) \<in> ignoreTags)"
| "isIgnored before after n = (if isEmptyTextNode before after n then True else False)"

fun isComputeStyle :: "node \<Rightarrow> bool" where
  "isComputeStyle (Element e cs) = (toUpperCase (tagName e) \<notin> noStyleTags)"
| "isComputeStyle n = False"

text \<open>
  \<open>document.createElement(name)\<close> in an HTML document: a new element without attributes or
  children, whose tag name reads in upper case.
\<close>

definition createElement :: "string \<Rightarrow> cnode" where
  "createElement name = CElement (toUpperCase name) [] [] []"

fun setAttribute :: "cnode \<Rightarrow> string \<Rightarrow> string \<Rightarrow> cnode" where
  "setAttribute (CElement t as st cs) name v =
     CElement t (if name \<in> fst ` set as then map (\<lambda>(k, x). if k = name then (k, v) else (k, x)) as
                 else as @ [(name, v)]) st cs"
| "setAttribute c name v = c"

text \<open>
  The reflecting properties \<open>element.alt\<close> and \<open>element.id\<close> read the content attribute, and
  the empty string when it is missing. \<open>img.width = n\<close> writes the decimal text of \<open>n\<close> into
  the content attribute. The last assignment, \<open>img.class = element.class\<close>, writes a script
  property that is no content attribute, so it leaves the node as it is.
\<close>

definition reflected :: "elem \<Rightarrow> string \<Rightarrow> string" where
  "reflected e name = (case getAttribute e name of None \<Rightarrow> [] | Some v \<Rightarrow> v)"

definition computeImageElement :: "elem \<Rightarrow> cnode" where
  "computeImageElement element =
     (let img = createElement ''img'';
          img = (if reflected element ''alt'' \<noteq> [] then setAttribute img ''alt'' (reflected element ''alt'') else img);
          img = (if reflected element ''id'' \<noteq> [] then setAttribute img ''id'' (reflected element ''id'') else img);
          img = setAttribute img ''width'' (decimal (width element));
          img = setAttribute img ''height'' (decimal (height element))
      in img)"

fun setStyle :: "cnode \<Rightarrow> string \<Rightarrow> string \<Rightarrow> cnode" where
  "setStyle (CElement t as st cs) name v = CElement t as (st @ [(name, v)]) cs"
| "setStyle c name v = c"

fun styleSets :: "cnode \<Rightarrow> (string \<times> string) list" where
  "styleSets (CElement t as st cs) = st"
| "styleSets c = []"

text \<open>The for loop of updateStyle, from index \<open>i\<close> up to \<open>l\<close>.\<close>

function styleFrom :: "elem \<Rightarrow> style option \<Rightarrow> nat \<Rightarrow> nat \<Rightarrow> cnode \<Rightarrow> cnode" where
  "styleFrom e defaultStyle i l clone =
     (if i < l
      then (let cssPropName = getPropertyName e i;
                cssPropValue = getPropertyValue e cssPropName
            in if cssPropValue = [] then styleFrom e defaultStyle (i + 1) l clone
               else if \<not> isDefaultStyle cssPropName cssPropValue defaultStyle \<or> isInlineStyle e cssPropName
               then styleFrom e defaultStyle (i + 1) l (setStyle clone cssPropName cssPropValue)
               else styleFrom e defaultStyle (i + 1) l clone)
      else clone)"
  by pat_completeness auto
termination
  by (relation "measure (\<lambda>(e, d, i, l, clone). l - i)") auto

definition updateStyle :: "style_cache \<Rightarrow> cnode \<Rightarrow> elem \<Rightarrow> cnode \<times> style_cache" where
  "updateStyle cache clone e =
     (let (defaultStyle, cache') = getDefaultStyle cache e;
          cssLength = numberProperties e
      in if \<not> hasStyle e then (clone, cache')
         else (styleFrom e defaultStyle 0 cssLength clone, cache'))"

text \<open>\<open>node.cloneNode(false)\<close>: tag and attributes of an element, no children.\<close>

fun cloneNode :: "node \<Rightarrow> cnode" where
  "cloneNode (Element e cs) = CElement (tagName e) (attrs e) [] []"
| "cloneNode (Text s) = CText s"
| "cloneNode (Comment s) = CComment s"

fun appendChild :: "cnode \<Rightarrow> cnode \<Rightarrow> cnode" where
  "appendChild (CElement t as st cs) child = CElement t as st (cs @ [child])"
| "appendChild c child = c"

text \<open>
  deepCloneWithStyles, with the default-style cache passed through, and the loop over
  \<open>node.childNodes\<close>, which carries the clone being filled. A text or comment node has no
  tag name and no children: it is no image, gets no style, and its clone is returned as it is.
\<close>

fun deepCloneWithStyles :: "style_cache \<Rightarrow> node list \<Rightarrow> node list \<Rightarrow> node \<Rightarrow> cnode option \<times> style_cache"
  and cloneChildren :: "style_cache \<Rightarrow> node list \<Rightarrow> node list \<Rightarrow> cnode \<Rightarrow> cnode \<times> style_cache"
where
  "deepCloneWithStyles cache before after (Element e cs) =
     (if isIgnored before after (Element e cs) then (None, cache)
      else if hasTagName (Element e cs) ''img'' then (Some (computeImageElement e), cache)
      else (let clone = cloneNode (Element e cs);
                (clone1, cache1) = (if isComputeStyle (Element e cs) then updateStyle cache clone e
                                    else (clone, cache));
                (clone2, cache2) = cloneChildren cache1 [] cs clone1
            in (Some clone2, cache2)))"
| "deepCloneWithStyles cache before after (Text s) =
     (if isIgnored before after (Text s) then (None, cache)
      else (Some (cloneNode (Text s)), cache))"
| "deepCloneWithStyles cache before after (Comment s) =
     (if isIgnored before after (Comment s) then (None, cache)
      else (Some (cloneNode (Comment s)), cache))"
| "cloneChildren cache before [] clone = (clone, cache)"
| "cloneChildren cache before (child # after) clone =
     (let (cloneChild, cache1) = deepCloneWithStyles cache before after child;
          clone1 = (case cloneChild of None \<Rightarrow> clone | Some c \<Rightarrow> appendChild clone c)
      in cloneChildren cache1 (before @ [child]) after clone1)"

section \<open>index.js: collecting the style sheets\<close>

text \<open>
  What the script cannot compute itself is a parameter: \<open>fetch\<close> gives the body text of a
  request or fails (\<open>None\<close>); \<open>parseCss\<close> is the rule list the browser builds for a style
  element with the given text; \<open>matchCount\<close> is the length of
  \<open>document.querySelectorAll(selector)\<close> on the live tree, or \<open>None\<close> where the selector
  cannot be parsed and the call throws a SyntaxError; \<open>serializeToString\<close> is the
  XMLSerializer; \<open>errorText\<close> is the text an error converts to. \<open>implicitGlobals\<close> says
  whether assigning to the undeclared names \<open>rootNode\<close> and \<open>styleSheets\<close> is allowed
  (sloppy script) or raises a ReferenceError (strict code, as in a module).
\<close>

record outdoc =
  odoctype :: "string option"
  oroot :: cnode

record host =
  fetch :: "string \<Rightarrow> string option"
  parseCss :: "string \<Rightarrow> cssrule list"
  matchCount :: "node \<Rightarrow> string \<Rightarrow> nat option"
  serializeToString :: "outdoc \<Rightarrow> string"
  errorText :: "error \<Rightarrow> string"
  implicitGlobals :: bool

definition request :: "host \<Rightarrow> string \<Rightarrow> world \<Rightarrow> (error + string) \<times> world" where
  "request h url w =
     (case fetch h url of None \<Rightarrow> Inl (FetchError url) | Some body \<Rightarrow> Inr body,
      w\<lparr>requests := requests w @ [url]\<rparr>)"

definition proxyUrl :: string where
  "proxyUrl = ''https://cors-anywhere.herokuapp.com/''"

definition loadCssWithCorsAnywhere :: "host \<Rightarrow> string \<Rightarrow> world \<Rightarrow> (error + string) \<times> world" where
  "loadCssWithCorsAnywhere h href' w = request h (proxyUrl @ href') w"

text \<open>
  In loadCss the direct path stores \<open>response.text()\<close> without awaiting it, so \<open>css\<close> is a
  promise there; the proxy path awaits and has the text. Assigning \<open>css\<close> to \<open>textContent\<close>
  converts it to a string.
\<close>

datatype css_value = CssString string | CssPromise string

fun toString :: "css_value \<Rightarrow> string" where
  "toString (CssString s) = s"
| "toString (CssPromise s) = ''[object Promise]''"

definition loadCss :: "host \<Rightarrow> string \<Rightarrow> world \<Rightarrow> (error + cssrule list) \<times> world" where
  "loadCss h href' w =
     (case request h href' w of
        (Inr body, w1) \<Rightarrow> (Inr (parseCss h (toString (CssPromise body))), w1)
      | (Inl e, w1) \<Rightarrow>
          (case loadCssWithCorsAnywhere h href' w1 of
             (Inl e', w2) \<Rightarrow> (Inl e', w2)
           | (Inr text, w2) \<Rightarrow> (Inr (parseCss h (toString (CssString text))), w2)))"

text \<open>The for loop of initializeStyleSheets, from index \<open>i\<close>; a rejected await ends it.\<close>

function sheetsFrom :: "host \<Rightarrow> nat \<Rightarrow> cssrule list list \<Rightarrow> world \<Rightarrow> (error + cssrule list list) \<times> world" where
  "sheetsFrom h i sheets w =
     (if i < length (styleSheets w)
      then (let styleSheet = styleSheets w ! i
            in case cssRules styleSheet of
                 Some rules \<Rightarrow> sheetsFrom h (i + 1) (sheets @ [rules]) w
               | None \<Rightarrow>
                   (case loadCss h (href styleSheet) w of
                      (Inl e, w1) \<Rightarrow> (Inl e, w1)
                    | (Inr rules, w1) \<Rightarrow> sheetsFrom h (i + 1) (sheets @ [rules]) w1))
      else (Inr sheets, w))"
  by pat_completeness auto
termination
  by (relation "measure (\<lambda>(h, i, sheets, w). length (styleSheets w) - i)")
     (auto simp: loadCss_def loadCssWithCorsAnywhere_def request_def split: option.splits)

definition initializeStyleSheets :: "host \<Rightarrow> world \<Rightarrow> (error + cssrule list list) \<times> world" where
  "initializeStyleSheets h w = sheetsFrom h 0 [] w"

section \<open>index.js: pruning the rules\<close>

text \<open>
  The inner and the outer for loop of getUsedStyles. The query of line 404 runs only where
  the flag is on; where the selector cannot be parsed it throws, which ends both loops.
\<close>

definition querySelectorAll_length :: "host \<Rightarrow> world \<Rightarrow> string \<Rightarrow> error + nat" where
  "querySelectorAll_length h w selector =
     (case matchCount h (documentElement w) selector of
        None \<Rightarrow> Inl (SyntaxError selector)
      | Some n \<Rightarrow> Inr n)"

function rulesFrom ::
  "host \<Rightarrow> world \<Rightarrow> bool \<Rightarrow> cssrule list \<Rightarrow> nat \<Rightarrow> string list \<Rightarrow> error + string list" where
  "rulesFrom h w isOptimizeCss rules r cleanRules =
     (if r < length rules
      then (case (if \<not> isOptimizeCss then Inr True
                  else (case querySelectorAll_length h w (selectorText (rules ! r)) of
                          Inl e \<Rightarrow> Inl e
                        | Inr n \<Rightarrow> Inr (n > 0))) of
              Inl e \<Rightarrow> Inl e
            | Inr keep \<Rightarrow>
                if keep
                then rulesFrom h w isOptimizeCss rules (r + 1) (cleanRules @ [cssText (rules ! r)])
                else rulesFrom h w isOptimizeCss rules (r + 1) cleanRules)
      else Inr cleanRules)"
  by pat_completeness auto
termination
  by (relation "measure (\<lambda>(h, w, opt, rules, r, clean). length rules - r)") auto

function usedFrom ::
  "host \<Rightarrow> world \<Rightarrow> bool \<Rightarrow> cssrule list list \<Rightarrow> nat \<Rightarrow> string list list \<Rightarrow> error + string list list" where
  "usedFrom h w isOptimizeCss styleSheets' i used =
     (if i < length styleSheets'
      then (case rulesFrom h w isOptimizeCss (styleSheets' ! i) 0 [] of
              Inl e \<Rightarrow> Inl e
            | Inr cleanRules \<Rightarrow> usedFrom h w isOptimizeCss styleSheets' (i + 1) (used @ [cleanRules]))
      else Inr used)"
  by pat_completeness auto
termination
  by (relation "measure (\<lambda>(h, w, opt, sheets, i, used). length sheets - i)") auto

definition getUsedStyles :: "host \<Rightarrow> world \<Rightarrow> bool \<Rightarrow> cssrule list list \<Rightarrow> error + string list list" where
  "getUsedStyles h w isOptimizeCss styleSheets' = usedFrom h w isOptimizeCss styleSheets' 0 []"

section \<open>index.js: assembling the document\<close>

text \<open>
  \<open>element.textContent = text\<close> replaces the children by one text node, or by none when
  the text is empty.
\<close>

fun setTextContent :: "cnode \<Rightarrow> string \<Rightarrow> cnode" where
  "setTextContent (CElement t as st cs) txt = CElement t as st (if txt = [] then [] else [CText txt])"
| "setTextContent c txt = c"

text \<open>
  \<open>doc.head\<close> is the first head child of the document's html root, or \<open>null\<close>.
  \<open>appendToHead root child\<close> is \<open>doc.head.appendChild(child)\<close>: \<open>None\<close> when \<open>doc.head\<close>
  is \<open>null\<close>, where the call throws.
\<close>

fun headAppend :: "cnode list \<Rightarrow> cnode \<Rightarrow> cnode list option" where
  "headAppend [] child = None"
| "headAppend (CElement t as st ks # cs) child =
     (if toLowerCase t = ''head'' then Some (CElement t as st (ks @ [child]) # cs)
      else (case headAppend cs child of None \<Rightarrow> None | Some cs' \<Rightarrow> Some (CElement t as st ks # cs')))"
| "headAppend (c # cs) child =
     (case headAppend cs child of None \<Rightarrow> None | Some cs' \<Rightarrow> Some (c # cs'))"

fun appendToHead :: "cnode \<Rightarrow> cnode \<Rightarrow> cnode option" where
  "appendToHead (CElement t as st cs) child =
     (if toLowerCase t = ''html''
      then (case headAppend cs child of None \<Rightarrow> None | Some cs' \<Rightarrow> Some (CElement t as st cs'))
      else None)"
| "appendToHead c child = None"

text \<open>
  \<open>document.getElementsByTagName('html')[0].appendChild(child)\<close> on the live tree: the
  child goes under the first html element in document order; \<open>None\<close> when there is none
  and the call throws.
\<close>

fun appendToFirst :: "string \<Rightarrow> node \<Rightarrow> node \<Rightarrow> node option"
  and appendToFirstOf :: "string \<Rightarrow> node \<Rightarrow> node list \<Rightarrow> node list option"
where
  "appendToFirst name child (Element e cs) =
     (if toLowerCase (tagName e) = name then Some (Element e (cs @ [child]))
      else (case appendToFirstOf name child cs of None \<Rightarrow> None | Some cs' \<Rightarrow> Some (Element e cs')))"
| "appendToFirst name child (Text s) = None"
| "appendToFirst name child (Comment s) = None"
| "appendToFirstOf name child [] = None"
| "appendToFirstOf name child (c # cs) =
     (case appendToFirst name child c of
        Some c' \<Rightarrow> Some (c' # cs)
      | None \<Rightarrow> (case appendToFirstOf name child cs of None \<Rightarrow> None | Some cs' \<Rightarrow> Some (c # cs')))"

definition newHead :: node where
  "newHead = Element \<lparr>tagName = ''HEAD'', attrs = [], computed = [], width = 0, height = 0\<rparr> []"

definition appendHeadToLive :: "world \<Rightarrow> error + world" where
  "appendHeadToLive w =
     (case appendToFirst ''html'' newHead (documentElement w) of
        None \<Rightarrow> Inl (TypeError ''html is undefined'')
      | Some root \<Rightarrow> Inr (w\<lparr>documentElement := root\<rparr>))"

text \<open>The for-of loop of finalize over the pruned rule lists.\<close>

fun appendStyles :: "string list list \<Rightarrow> cnode \<Rightarrow> error + cnode" where
  "appendStyles [] root = Inr root"
| "appendStyles (rules # rest) root =
     (if length rules = 0 then appendStyles rest root
      else (let usedStyle = setTextContent (createElement ''style'') (join '' '' rules)
            in case appendToHead root usedStyle of
                 None \<Rightarrow> Inl (TypeError ''doc.head is null'')
               | Some root' \<Rightarrow> appendStyles rest root'))"

text \<open>
  \<open>document.implementation.createDocument("", "", document.doctype)\<close> appends the doctype
  node it is given to the new document; a node has one parent, so the live document's
  doctype node moves into the new document and \<open>document.doctype\<close> reads \<open>null\<close> afterwards.
\<close>

definition createDocument :: "world \<Rightarrow> string option \<times> world" where
  "createDocument w = (doctype w, w\<lparr>doctype := None\<rparr>)"

definition finalize :: "host \<Rightarrow> bool \<Rightarrow> cnode option \<Rightarrow> cssrule list list \<Rightarrow> world \<Rightarrow> (error + outdoc) \<times> world" where
  "finalize h isOptimizeCss node styleSheets' w =
     (let (docType, w1) = createDocument w
      in case node of
           None \<Rightarrow> (Inl (TypeError ''appendChild: not a node''), w1)
         | Some root \<Rightarrow>
             (case (if head w1 = JUndefined then appendHeadToLive w1 else Inr w1) of
                Inl e \<Rightarrow> (Inl e, w1)
              | Inr w2 \<Rightarrow>
                  (case getUsedStyles h w2 isOptimizeCss styleSheets' of
                     Inl e \<Rightarrow> (Inl e, w2)
                   | Inr used \<Rightarrow>
                       (case appendStyles used root of
                          Inl e \<Rightarrow> (Inl e, w2)
                        | Inr root' \<Rightarrow> (Inr \<lparr>odoctype = docType, oroot = root'\<rparr>, w2)))))"

definition createErrorDocument :: "host \<Rightarrow> error \<Rightarrow> world \<Rightarrow> outdoc \<times> world" where
  "createErrorDocument h e w =
     (let (docType, w1) = createDocument w;
          htmlNode = createElement ''html'';
          bodyNode = createElement ''body'';
          bodyNode = appendChild bodyNode (CMarkup (errorText h e));
          htmlNode = appendChild htmlNode bodyNode
      in (\<lparr>odoctype = docType, oroot = htmlNode\<rparr>, w1))"

section \<open>index.js: the snapshot operation\<close>

text \<open>
  createDomElements starts the sheet collection and clones the tree from the document
  element, which has no siblings; the default-style cache is new in every call of
  domWithStyles. The two share no state, so their order does not matter.
\<close>

definition createDomElements :: "host \<Rightarrow> world \<Rightarrow> (error + cnode option \<times> cssrule list list) \<times> world" where
  "createDomElements h w =
     (let (styleSheets', w1) = initializeStyleSheets h w;
          (clone, cache) = deepCloneWithStyles Map.empty [] [] (documentElement w1)
      in (case styleSheets' of Inl e \<Rightarrow> Inl e | Inr sheets \<Rightarrow> Inr (clone, sheets), w1))"

text \<open>The body of the try block of lines 485 to 488.\<close>

definition build :: "host \<Rightarrow> bool \<Rightarrow> world \<Rightarrow> (error + outdoc) \<times> world" where
  "build h optimizeImport w =
     (case createDomElements h w of
        (Inl e, w1) \<Rightarrow> (Inl e, w1)
      | (Inr (rootNode, styleSheets'), w1) \<Rightarrow>
          if \<not> implicitGlobals h then (Inl (ReferenceError ''rootNode is not defined''), w1)
          else finalize h optimizeImport rootNode styleSheets' w1)"

text \<open>A stored value passes \<open>if(stored)\<close> when it is there and not the empty string.\<close>

fun truthy :: "string option \<Rightarrow> bool" where
  "truthy None = False"
| "truthy (Some s) = (s \<noteq> [])"

text \<open>The try statement of lines 485 to 491: the document built, or the error document.\<close>

definition tryBuild :: "host \<Rightarrow> bool \<Rightarrow> world \<Rightarrow> outdoc \<times> world" where
  "tryBuild h optimizeImport w =
     (case build h optimizeImport w of
        (Inr doc, w1) \<Rightarrow> (doc, w1)
      | (Inl e, w1) \<Rightarrow> createErrorDocument h e w1)"

text \<open>
  domWithStyles: the result is what the promise settles with, \<open>Inr\<close> a string when it
  resolves and \<open>Inl\<close> an error when it rejects. \<open>rebuild\<close> is the part from line 483 on. The
  storage calls of lines 478, 479, 496 and 497 are outside the try statement: what they throw
  rejects the promise.
\<close>

definition rebuild :: "host \<Rightarrow> bool \<Rightarrow> world \<Rightarrow> (error + string) \<times> world" where
  "rebuild h optimizeImport w =
     (let (doc, w1) = tryBuild h optimizeImport w;
          dom = serializeToString h doc
      in case getItem ''allow_snapshot'' w1 of
           (Inl e, w2) \<Rightarrow> (Inl e, w2)
         | (Inr allow, w2) \<Rightarrow>
             if allow = Some ''true''
             then (case setItem ''dom_snapshot'' dom w2 of
                     (Inl e, w3) \<Rightarrow> (Inl e, w3)
                   | (Inr u, w3) \<Rightarrow> (Inr dom, w3))
             else (Inr dom, w2))"

definition domWithStyles :: "host \<Rightarrow> bool \<Rightarrow> world \<Rightarrow> (error + string) \<times> world" where
  "domWithStyles h optimizeImport w =
     (case getItem ''allow_snapshot'' w of
        (Inl e, w1) \<Rightarrow> (Inl e, w1)
      | (Inr allow, w1) \<Rightarrow>
          if allow = Some ''true''
          then (case getItem ''dom_snapshot'' w1 of
                  (Inl e, w2) \<Rightarrow> (Inl e, w2)
                | (Inr stored, w2) \<Rightarrow>
                    (case stored of
                       Some snapshot \<Rightarrow>
                         if truthy stored then (Inr snapshot, w2) else rebuild h optimizeImport w2
                     | None \<Rightarrow> rebuild h optimizeImport w2))
          else rebuild h optimizeImport w1)"

section \<open>Properties in the words of the specification\<close>

text \<open>
  A text is blank-only when every character is a tab (9), line feed (10), vertical tab (11),
  form feed (12), carriage return (13) or space (32).
\<close>

definition blankOnly :: "string \<Rightarrow> bool" where
  "blankOnly s = list_all (\<lambda>c. (of_char c :: nat) \<in> {9, 10, 11, 12, 13, 32}) s"

text \<open>An adjacent element sibling, before or after, is a span.\<close>

fun isSpan :: "node option \<Rightarrow> bool" where
  "isSpan (Some (Element e cs)) = (toLowerCase (tagName e) = ''span'')"
| "isSpan n = False"

definition spanAdjacent :: "node list \<Rightarrow> node list \<Rightarrow> bool" where
  "spanAdjacent before after =
     (isSpan (previousElementSibling before) \<or> isSpan (nextElementSibling after))"

text \<open>
  The name and value of the computed-style property at an index, the test of updateStyle
  that decides whether a property is written to the clone, and the baseline that
  getDefaultStyle hands to it.
\<close>

definition property :: "elem \<Rightarrow> nat \<Rightarrow> string \<times> string" where
  "property e i = (getPropertyName e i, getPropertyValue e (getPropertyName e i))"

definition kept :: "elem \<Rightarrow> style option \<Rightarrow> string \<times> string \<Rightarrow> bool" where
  "kept e d p = (snd p \<noteq> [] \<and> (\<not> isDefaultStyle (fst p) (snd p) d \<or> isInlineStyle e (fst p)))"

definition baseline :: "style_cache \<Rightarrow> elem \<Rightarrow> style" where
  "baseline cache e = (case fst (getDefaultStyle cache e) of None \<Rightarrow> [] | Some d \<Rightarrow> d)"

text \<open>
  A sheet is beyond recovery when its rule list cannot be read, the fetch of its address
  fails and the fetch through the proxy fails. The requests made for one sheet, in their
  order, and for a list of sheets, up to the first sheet beyond recovery.
\<close>

definition unrecoverable :: "host \<Rightarrow> sheet \<Rightarrow> bool" where
  "unrecoverable h s =
     (cssRules s = None \<and> fetch h (href s) = None \<and> fetch h (proxyUrl @ href s) = None)"

definition attempts :: "host \<Rightarrow> sheet \<Rightarrow> string list" where
  "attempts h s =
     (if cssRules s \<noteq> None then []
      else if fetch h (href s) \<noteq> None then [href s]
      else [href s, proxyUrl @ href s])"

fun attempted :: "host \<Rightarrow> sheet list \<Rightarrow> string list" where
  "attempted h [] = []"
| "attempted h (s # ss) = attempts h s @ (if unrecoverable h s then [] else attempted h ss)"

text \<open>
  A rule's selector cannot be parsed, or matches at least one element of the live document.
\<close>

definition unparsable :: "host \<Rightarrow> world \<Rightarrow> cssrule \<Rightarrow> bool" where
  "unparsable h w rule = (matchCount h (documentElement w) (selectorText rule) = None)"

definition matching :: "host \<Rightarrow> world \<Rightarrow> cssrule \<Rightarrow> bool" where
  "matching h w rule =
     (case matchCount h (documentElement w) (selectorText rule) of None \<Rightarrow> False | Some n \<Rightarrow> 0 < n)"

text \<open>
  A request is served from the store when allow_snapshot is 'true' and the stored snapshot
  passes the test of line 480. Otherwise the build starts in the world after the reads made
  so far.
\<close>

definition served :: "world \<Rightarrow> bool" where
  "served w = (sessionStorage w ''allow_snapshot'' = Some ''true'' \<and> truthy (sessionStorage w ''dom_snapshot''))"

definition atBuild :: "world \<Rightarrow> world" where
  "atBuild w =
     w\<lparr>storageLog := storageLog w @
        (if sessionStorage w ''allow_snapshot'' = Some ''true''
         then [GetItem ''allow_snapshot'', GetItem ''dom_snapshot'']
         else [GetItem ''allow_snapshot''])\<rparr>"

text \<open>The document createErrorDocument gives for an error, with a given doctype.\<close>

definition errorDocument :: "host \<Rightarrow> error \<Rightarrow> string option \<Rightarrow> outdoc" where
  "errorDocument h e docType =
     \<lparr>odoctype = docType,
      oroot = CElement ''HTML'' [] [] [CElement ''BODY'' [] [] [CMarkup (errorText h e)]]\<rparr>"

text \<open>Two worlds agree on the store, its log and its limits.\<close>

definition sameStore :: "world \<Rightarrow> world \<Rightarrow> bool" where
  "sameStore w1 w =
     (sessionStorage w1 = sessionStorage w \<and> storageLog w1 = storageLog w
      \<and> storageAvailable w1 = storageAvailable w \<and> storageAccepts w1 = storageAccepts w)"

section \<open>The loops of the sheet collection as functions of the sheet list\<close>

text \<open>
  For the proofs: the result of loadCss as the code computes it, which does not depend on
  the world; what one sheet contributes; and the collection, which stops at the first error.
\<close>

definition loaded :: "host \<Rightarrow> string \<Rightarrow> error + cssrule list" where
  "loaded h u =
     (case fetch h u of
        Some body \<Rightarrow> Inr (parseCss h (toString (CssPromise body)))
      | None \<Rightarrow>
          (case fetch h (proxyUrl @ u) of
             None \<Rightarrow> Inl (FetchError (proxyUrl @ u))
           | Some text \<Rightarrow> Inr (parseCss h (toString (CssString text)))))"

definition sheetRules :: "host \<Rightarrow> sheet \<Rightarrow> error + cssrule list" where
  "sheetRules h s = (case cssRules s of Some rules \<Rightarrow> Inr rules | None \<Rightarrow> loaded h (href s))"

fun collect :: "host \<Rightarrow> sheet list \<Rightarrow> error + cssrule list list" where
  "collect h [] = Inr []"
| "collect h (s # ss) =
     (case sheetRules h s of
        Inl e \<Rightarrow> Inl e
      | Inr rules \<Rightarrow> (case collect h ss of Inl e \<Rightarrow> Inl e | Inr rs \<Rightarrow> Inr (rules # rs)))"

section \<open>Example pages and hosts\<close>

definition plain :: "string \<Rightarrow> elem" where
  "plain t = \<lparr>tagName = t, attrs = [], computed = [], width = 0, height = 0\<rparr>"

text \<open>
  A page with a doctype, an empty html element, no style sheets and an empty store that is
  available and takes every value.
\<close>

definition blank_page :: world where
  "blank_page = \<lparr>doctype = Some ''html'', head = JObject,
     documentElement = Element \<lparr>tagName = ''HTML'', attrs = [], computed = [], width = 0, height = 0\<rparr> [],
     styleSheets = [], sessionStorage = Map.empty, storageLog = [],
     storageAvailable = True, storageAccepts = (\<lambda>store k v. True),
     requests = [], observers = 0\<rparr>"

definition simple_page :: world where
  "simple_page = blank_page\<lparr>documentElement :=
     Element (plain ''HTML'') [Element (plain ''HEAD'') [], Element (plain ''BODY'') [Text ''hi'']]\<rparr>"

text \<open>The same page on a host where \<open>document.head\<close> is \<open>undefined\<close>.\<close>

definition legacy_page :: world where
  "legacy_page = simple_page\<lparr>head := JUndefined\<rparr>"

definition span_node :: node where
  "span_node = Element \<lparr>tagName = ''SPAN'', attrs = [], computed = [], width = 0, height = 0\<rparr> [Text ''a'']"

definition div_node :: node where
  "div_node = Element \<lparr>tagName = ''DIV'', attrs = [], computed = [], width = 0, height = 0\<rparr> []"

definition logo_img :: elem where
  "logo_img = \<lparr>tagName = ''IMG'',
     attrs = [(''src'', ''logo.png''), (''alt'', ''Logo''), (''id'', ''logo''), (''class'', ''big'')],
     computed = [(''display'', ''inline'')], width = 120, height = 60\<rparr>"

definition spacer_img :: elem where
  "spacer_img = \<lparr>tagName = ''IMG'',
     attrs = [(''alt'', []), (''id'', ''spacer'')],
     computed = [], width = 10, height = 20\<rparr>"

definition red_div :: elem where
  "red_div = \<lparr>tagName = ''DIV'',
     attrs = [(''id'', ''x''), (''style'', ''color: red'')],
     computed = [(''color'', ''red''), (''display'', ''block''), (''cursor'', [])],
     width = 0, height = 0\<rparr>"

definition note_div :: elem where
  "note_div = \<lparr>tagName = ''DIV'', attrs = [(''class'', ''note'')],
     computed = [(''color'', ''black'')], width = 0, height = 0\<rparr>"

definition red_note_div :: elem where
  "red_note_div = \<lparr>tagName = ''DIV'', attrs = [(''class'', ''note''), (''style'', ''color: red'')],
     computed = [(''color'', ''red'')], width = 0, height = 0\<rparr>"

definition ab_div :: elem where
  "ab_div = \<lparr>tagName = ''DIV'', attrs = [(''class'', ''a b'')], computed = [], width = 0, height = 0\<rparr>"

definition ba_div :: elem where
  "ba_div = \<lparr>tagName = ''DIV'', attrs = [(''class'', ''b a'')], computed = [], width = 0, height = 0\<rparr>"

text \<open>
  Hosts: one without network, one where only the proxy answers, one where the network
  answers. All serialise every document to the same text, which is enough where only the
  flow of the strings matters. On all of them the empty selector cannot be parsed, the
  selector \<open>p\<close> matches two elements and every other selector none.
\<close>

definition describe :: "error \<Rightarrow> string" where
  "describe e = (case e of FetchError u \<Rightarrow> ''TypeError: Failed to fetch''
                 | TypeError m \<Rightarrow> ''TypeError: '' @ m
                 | ReferenceError m \<Rightarrow> ''ReferenceError: '' @ m
                 | SyntaxError m \<Rightarrow> ''SyntaxError: '' @ m
                 | SecurityError \<Rightarrow> ''SecurityError''
                 | QuotaExceededError \<Rightarrow> ''QuotaExceededError'')"

definition count_p :: "node \<Rightarrow> string \<Rightarrow> nat option" where
  "count_p root selector = (if selector = [] then None else if selector = ''p'' then Some 2 else Some 0)"

definition offline :: host where
  "offline = \<lparr>fetch = (\<lambda>u. None), parseCss = (\<lambda>t. []), matchCount = count_p,
     serializeToString = (\<lambda>d. ''<snapshot/>''), errorText = describe, implicitGlobals = True\<rparr>"

definition p_rule :: cssrule where
  "p_rule = \<lparr>selectorText = ''p'', cssText = ''p { margin: 0px; }''\<rparr>"

definition h1_rule :: cssrule where
  "h1_rule = \<lparr>selectorText = ''h1'', cssText = ''h1 { color: red; }''\<rparr>"

text \<open>A page-margin rule: its selector text is empty.\<close>

definition page_rule :: cssrule where
  "page_rule = \<lparr>selectorText = [], cssText = ''@page { margin: 1cm; }''\<rparr>"

definition parse_p :: "string \<Rightarrow> cssrule list" where
  "parse_p t = (if t = ''p{margin:0}'' then [p_rule] else [])"

definition proxy_only :: host where
  "proxy_only = \<lparr>fetch = (\<lambda>u. if u = ''https://cors-anywhere.herokuapp.com/https://cdn.example/a.css''
                                then Some ''p{margin:0}'' else None),
     parseCss = parse_p, matchCount = count_p,
     serializeToString = (\<lambda>d. ''<snapshot/>''), errorText = describe, implicitGlobals = True\<rparr>"

definition online :: host where
  "online = \<lparr>fetch = (\<lambda>u. if u = ''https://cdn.example/a.css'' then Some ''p{margin:0}'' else None),
     parseCss = parse_p, matchCount = count_p,
     serializeToString = (\<lambda>d. ''<snapshot/>''), errorText = describe, implicitGlobals = True\<rparr>"

definition foreign_sheet :: sheet where
  "foreign_sheet = \<lparr>cssRules = None, href = ''https://cdn.example/a.css''\<rparr>"

definition own_sheet :: sheet where
  "own_sheet = \<lparr>cssRules = Some [p_rule], href = []\<rparr>"

text \<open>A page with a cross-origin sheet between two sheets of its own.\<close>

definition foreign_page :: world where
  "foreign_page = blank_page\<lparr>styleSheets := [own_sheet, foreign_sheet, own_sheet]\<rparr>"

text \<open>Pages with caching switched on: with a stored snapshot, and without.\<close>

definition caching_page :: "string \<Rightarrow> world" where
  "caching_page stored =
     blank_page\<lparr>sessionStorage := [''allow_snapshot'' \<mapsto> ''true'', ''dom_snapshot'' \<mapsto> stored]\<rparr>"

definition enabled_page :: world where
  "enabled_page = blank_page\<lparr>sessionStorage := [''allow_snapshot'' \<mapsto> ''true'']\<rparr>"

text \<open>
  A page that may not use the store, and a page with caching switched on whose store takes
  no value longer than five characters.
\<close>

definition locked_page :: world where
  "locked_page = blank_page\<lparr>storageAvailable := False\<rparr>"

definition full_page :: world where
  "full_page = enabled_page\<lparr>storageAccepts := (\<lambda>store k v. length v \<le> 5)\<rparr>"

text \<open>
  The loops are unfolded where a proof asks for it, not by the simplifier on its own.
\<close>

declare blankFrom.simps [simp del]
declare styleFrom.simps [simp del]
declare sheetsFrom.simps [simp del]
declare rulesFrom.simps [simp del]
declare usedFrom.simps [simp del]
declare decimal.simps [simp del]

section \<open>The mutation observer\<close>

lemma trackMutation_unchanged: "trackMutation mutationObserver w = (Inr (), w)"
  by (simp add: trackMutation_def strict_equals_def typeof_observeDOM_def)

text \<open>
  C1. Claimed: every call to trackMutation installs the observer and sets allow_snapshot to
  'true' (or to 'false' without MutationObserver). On the code the guard of line 2 is never
  true, so a call returns and changes nothing: on a page with MutationObserver and an empty
  store, allow_snapshot stays unset and no observer is installed; the same without
  MutationObserver.
\<close>

theorem trackMutation_installs_nothing:
  "sessionStorage (snd (trackMutation True blank_page)) ''allow_snapshot'' = None
   \<and> observers (snd (trackMutation True blank_page)) = 0
   \<and> sessionStorage (snd (trackMutation False blank_page)) ''allow_snapshot'' = None
   \<and> trackMutation True blank_page = (Inr (), blank_page)"
  by (simp add: trackMutation_def strict_equals_def typeof_observeDOM_def blank_page_def)

section \<open>Blank text nodes\<close>

lemma blankFrom_drop: "blankFrom s i = list_all (\<lambda>c. isBlankCharacter (of_char c)) (drop i s)"
proof (induction s i rule: blankFrom.induct)
  case (1 s i)
  show ?case
  proof (cases "i < length s")
    case True
    then have d: "drop i s = s ! i # drop (Suc i) s" by (simp add: Cons_nth_drop_Suc)
    show ?thesis using True 1 d by (subst blankFrom.simps) auto
  next
    case False
    then show ?thesis by (subst blankFrom.simps) simp
  qed
qed

lemma isBlankCharacter_codes: "isBlankCharacter n = (n \<in> {9, 10, 11, 12, 13, 32})"
  by (auto simp: isBlankCharacter_def)

lemma lower_span: "toLowerCase ''span'' = ''span''"
  by (simp add: toLowerCase_def)

lemma isSpan_hasTagName: "isSpan p = (case p of None \<Rightarrow> False | Some n \<Rightarrow> hasTagName n ''span'')"
  by (cases p rule: isSpan.cases) (simp_all add: lower_span)

text \<open>
  C7. A text node whose content is blank-only is dropped by the cloner (the result is
  \<open>null\<close>) when neither its previous nor its next element sibling is a span, and is kept,
  cloned as it is, when one of them is a span. The default-style cache is left as it was.
\<close>

theorem blank_text_cloning:
  assumes "blankOnly s"
  shows "deepCloneWithStyles cache before after (Text s) =
          (if spanAdjacent before after then (Some (CText s), cache) else (None, cache))"
proof -
  have "blankFrom s 0" using assms
    by (simp add: blankFrom_drop isBlankCharacter_codes blankOnly_def)
  then show ?thesis
    by (simp add: spanAdjacent_def isSpan_hasTagName)
qed

theorem blank_text_cloning_witness:
  "blankOnly [CHR '' '', CHR 0x0A, CHR 0x09]
   \<and> deepCloneWithStyles Map.empty [div_node] [Comment ''x'', div_node] (Text [CHR '' '', CHR 0x0A, CHR 0x09])
       = (None, Map.empty)
   \<and> deepCloneWithStyles Map.empty [span_node, Comment ''x''] [div_node] (Text [CHR '' '', CHR 0x0A, CHR 0x09])
       = (Some (CText [CHR '' '', CHR 0x0A, CHR 0x09]), Map.empty)"
proof -
  have b: "blankOnly [CHR '' '', CHR 0x0A, CHR 0x09]" by (simp add: blankOnly_def)
  have n: "\<not> spanAdjacent [div_node] [Comment ''x'', div_node]"
    by (simp add: spanAdjacent_def previousElementSibling_def nextElementSibling_def div_node_def
        toLowerCase_def)
  have y: "spanAdjacent [span_node, Comment ''x''] [div_node]"
    by (simp add: spanAdjacent_def previousElementSibling_def nextElementSibling_def div_node_def
        span_node_def toLowerCase_def)
  have 1: "deepCloneWithStyles Map.empty [div_node] [Comment ''x'', div_node] (Text [CHR '' '', CHR 0x0A, CHR 0x09])
       = (None, Map.empty)"
    using blank_text_cloning [OF b, of Map.empty "[div_node]" "[Comment ''x'', div_node]"] n
    by (simp only: if_False)
  have 2: "deepCloneWithStyles Map.empty [span_node, Comment ''x''] [div_node] (Text [CHR '' '', CHR 0x0A, CHR 0x09])
       = (Some (CText [CHR '' '', CHR 0x0A, CHR 0x09]), Map.empty)"
    using blank_text_cloning [OF b, of Map.empty "[span_node, Comment ''x'']" "[div_node]"] y
    by (simp only: if_True)
  show ?thesis using b 1 2 by (simp only: simp_thms)
qed

section \<open>Strings\<close>

lemma upper_lower_char:
  "(case map_of (zip ''abcdefghijklmnopqrstuvwxyz'' ''ABCDEFGHIJKLMNOPQRSTUVWXYZ'')
      (case map_of (zip ''ABCDEFGHIJKLMNOPQRSTUVWXYZ'' ''abcdefghijklmnopqrstuvwxyz'') c of None \<Rightarrow> c | Some d \<Rightarrow> d)
    of None \<Rightarrow> (case map_of (zip ''ABCDEFGHIJKLMNOPQRSTUVWXYZ'' ''abcdefghijklmnopqrstuvwxyz'') c of None \<Rightarrow> c | Some d \<Rightarrow> d)
     | Some d \<Rightarrow> d)
   = (case map_of (zip ''abcdefghijklmnopqrstuvwxyz'' ''ABCDEFGHIJKLMNOPQRSTUVWXYZ'') c of None \<Rightarrow> c | Some d \<Rightarrow> d)"
  by (simp split: if_splits)

lemma toUpperCase_toLowerCase: "toUpperCase (toLowerCase s) = toUpperCase s"
  unfolding toUpperCase_def toLowerCase_def map_map comp_def
  by (rule map_cong [OF refl]) (rule upper_lower_char)

lemma indexOf_ge: "- 1 \<le> indexOf hay needle"
  by (induction hay) (auto simp: Let_def)

lemma indexOf_sublist: "(indexOf hay needle \<noteq> - 1) = sublist needle hay"
proof (induction hay)
  case Nil
  then show ?case by simp
next
  case (Cons c cs)
  have "indexOf cs needle + 1 \<noteq> - 1" using indexOf_ge [of cs needle] by arith
  then show ?case using Cons
    by (auto simp: Let_def sublist_Cons_right)
qed

lemma upper_img: "toUpperCase ''img'' = ''IMG''"
  by (simp add: toUpperCase_def)

lemma lower_img: "toLowerCase ''img'' = ''img''"
  by (simp add: toLowerCase_def)

section \<open>Images\<close>

lemma computeImageElement_attrs:
  "computeImageElement e =
     CElement ''IMG''
       ((if reflected e ''alt'' = [] then [] else [(''alt'', reflected e ''alt'')])
        @ (if reflected e ''id'' = [] then [] else [(''id'', reflected e ''id'')])
        @ [(''width'', decimal (width e)), (''height'', decimal (height e))]) [] []"
  by (simp add: computeImageElement_def createElement_def upper_img Let_def)

text \<open>
  C8, as amended. For every img element, whatever its attributes and children, the cloner
  returns a new IMG node without children whose attributes are, in this order: alt, when the
  element's alt is not empty; id, when its id is not empty; width and height, the decimal
  text of the element's width and height. So an image with non-empty alt A and non-empty id I
  gives a node with exactly the four attributes alt, id, width, height.
\<close>

theorem image_substitution:
  assumes "toLowerCase (tagName e) = ''img''"
  shows "deepCloneWithStyles cache before after (Element e cs) =
     (Some (CElement ''IMG''
       ((if reflected e ''alt'' = [] then [] else [(''alt'', reflected e ''alt'')])
        @ (if reflected e ''id'' = [] then [] else [(''id'', reflected e ''id'')])
        @ [(''width'', decimal (width e)), (''height'', decimal (height e))]) [] []), cache)"
proof -
  have "toUpperCase (tagName e) = ''IMG''"
    using toUpperCase_toLowerCase [of "tagName e"] assms by (simp add: upper_img)
  then have "\<not> isIgnored before after (Element e cs)"
    by (simp add: ignoreTags_def)
  then show ?thesis
    using assms by (simp add: lower_img computeImageElement_attrs)
qed

theorem image_substitution_witness:
  "toLowerCase (tagName logo_img) = ''img''
   \<and> deepCloneWithStyles Map.empty [] [] (Element logo_img [Text ''x'']) =
       (Some (CElement ''IMG'' [(''alt'', ''Logo''), (''id'', ''logo''), (''width'', ''120''), (''height'', ''60'')] [] []),
        Map.empty)"
proof -
  have t: "toLowerCase (tagName logo_img) = ''img''"
    by (simp add: logo_img_def toLowerCase_def)
  have d: "decimal (width logo_img) = ''120''" "decimal (height logo_img) = ''60''"
    by (simp_all add: logo_img_def decimal.simps)
  have r: "reflected logo_img ''alt'' = ''Logo''" "reflected logo_img ''id'' = ''logo''"
    by (simp_all add: reflected_def getAttribute_def logo_img_def)
  show ?thesis
    using t image_substitution [OF t, of Map.empty "[]" "[]" "[Text ''x'']"]
    by (simp add: d r)
qed

text \<open>
  The claim as stated fails for an image whose alt is the empty text: the new node has the
  three attributes id, width and height, and no alt.
\<close>

theorem image_empty_alt_counterexample:
  "deepCloneWithStyles Map.empty [] [] (Element spacer_img []) =
     (Some (CElement ''IMG'' [(''id'', ''spacer''), (''width'', ''10''), (''height'', ''20'')] [] []), Map.empty)
   \<and> fst (deepCloneWithStyles Map.empty [] [] (Element spacer_img [])) \<noteq>
     Some (CElement ''IMG'' [(''alt'', ''''), (''id'', ''spacer''), (''width'', ''10''), (''height'', ''20'')] [] [])"
  by (simp add: spacer_img_def toLowerCase_def toUpperCase_def ignoreTags_def computeImageElement_def
      createElement_def reflected_def getAttribute_def Let_def decimal.simps)

section \<open>The style delta\<close>

lemma kept_property:
  "kept e d (property e i) =
     (getPropertyValue e (getPropertyName e i) \<noteq> []
      \<and> (\<not> isDefaultStyle (getPropertyName e i) (getPropertyValue e (getPropertyName e i)) d
         \<or> isInlineStyle e (getPropertyName e i)))"
  and fst_property: "fst (property e i) = getPropertyName e i"
  and snd_property: "snd (property e i) = getPropertyValue e (getPropertyName e i)"
  by (simp_all add: kept_def property_def)

lemma styleFrom_fold:
  "styleFrom e d i l clone =
     fold (\<lambda>p c. setStyle c (fst p) (snd p)) (filter (kept e d) (map (property e) [i..<l])) clone"
proof (induction e d i l clone rule: styleFrom.induct)
  case (1 e d i l clone)
  show ?case
  proof (cases "i < l")
    case True
    then have u: "[i..<l] = i # [Suc i..<l]" by (simp add: upt_conv_Cons)
    show ?thesis
      using True 1
      by (subst styleFrom.simps) (auto simp: u Let_def kept_property fst_property snd_property)
  next
    case False
    then show ?thesis by (subst styleFrom.simps) simp
  qed
qed

lemma styleSets_fold:
  "styleSets (fold (\<lambda>p c. setStyle c (fst p) (snd p)) ps (CElement t as st cs)) = st @ ps"
  by (induction ps arbitrary: st) auto

lemma updateStyle_sets:
  "styleSets (fst (updateStyle cache (CElement t as [] cs) e)) =
     filter (kept e (fst (getDefaultStyle cache e))) (map (property e) [0..<numberProperties e])"
  by (simp add: updateStyle_def hasStyle_def styleFrom_fold styleSets_fold split: prod.splits)

lemma getDefaultStyle_Some: "\<exists>d. fst (getDefaultStyle cache e) = Some d"
  by (auto simp: getDefaultStyle_def Let_def)

lemma isInlineStyle_sublist:
  assumes "name \<noteq> []"
  shows "isInlineStyle e name = (\<exists>txt. getAttribute e ''style'' = Some txt \<and> sublist name txt)"
  using assms by (auto simp: isInlineStyle_def indexOf_sublist split: option.splits)

text \<open>
  C5. Let \<open>name\<close> be the computed-style property of an element at an index below the
  property count, and \<open>v\<close> its value (a property name is not empty). updateStyle writes
  \<open>name\<close> with \<open>v\<close> to the inline style of the element's clone if and only if \<open>v\<close> is not
  empty and either \<open>v\<close> differs from the baseline's value for \<open>name\<close>, or \<open>name\<close> occurs as a
  substring of the text of the element's style attribute.
\<close>

theorem style_delta:
  assumes "i < numberProperties e" and "getPropertyName e i = name" and "name \<noteq> []"
    and "getPropertyValue e name = v"
  shows "((name, v) \<in> set (styleSets (fst (updateStyle cache (cloneNode (Element e cs)) e))))
         = (v \<noteq> [] \<and> (v \<noteq> propertyValue (baseline cache e) name
                       \<or> (\<exists>txt. getAttribute e ''style'' = Some txt \<and> sublist name txt)))"
proof -
  obtain d where d: "fst (getDefaultStyle cache e) = Some d"
    using getDefaultStyle_Some by blast
  have k: "kept e (Some d) (name, v) =
        (v \<noteq> [] \<and> (v \<noteq> propertyValue d name \<or> (\<exists>txt. getAttribute e ''style'' = Some txt \<and> sublist name txt)))"
    using assms(3) by (simp add: kept_def isDefaultStyle_def isInlineStyle_sublist)
  have p: "property e i = (name, v)" using assms by (simp add: property_def)
  have m: "(name, v) \<in> property e ` {0..<numberProperties e}"
    using assms(1) p by (metis atLeastLessThan_iff image_eqI zero_le)
  show ?thesis
    using k m by (simp add: updateStyle_sets d baseline_def)
qed

theorem style_delta_witness:
  "0 < numberProperties red_div \<and> getPropertyName red_div 0 = ''color'' \<and> ''color'' \<noteq> []
   \<and> getPropertyValue red_div ''color'' = ''red''
   \<and> (''color'', ''red'') \<in> set (styleSets (fst (updateStyle Map.empty (cloneNode (Element red_div [])) red_div)))
   \<and> 1 < numberProperties red_div \<and> getPropertyName red_div 1 = ''display'' \<and> ''display'' \<noteq> []
   \<and> getPropertyValue red_div ''display'' = ''block''
   \<and> (''display'', ''block'') \<notin> set (styleSets (fst (updateStyle Map.empty (cloneNode (Element red_div [])) red_div)))"
proof -
  have a: "0 < numberProperties red_div" "getPropertyName red_div 0 = ''color''" "''color'' \<noteq> []"
    "getPropertyValue red_div ''color'' = ''red''"
    by (simp_all add: numberProperties_def getPropertyName_def getPropertyValue_def getComputedStyle_def
        item_def propertyValue_def red_div_def)
  have b: "1 < numberProperties red_div" "getPropertyName red_div 1 = ''display''" "''display'' \<noteq> []"
    "getPropertyValue red_div ''display'' = ''block''"
    by (simp_all add: numberProperties_def getPropertyName_def getPropertyValue_def getComputedStyle_def
        item_def propertyValue_def red_div_def)
  have s: "getAttribute red_div ''style'' = Some ''color: red''"
    by (simp add: getAttribute_def red_div_def)
  have c: "sublist ''color'' ''color: red''"
    by (rule prefix_imp_sublist) simp
  have n: "\<not> sublist ''display'' ''color: red''"
    using indexOf_sublist [of "''color: red''" "''display''"] by simp
  have base: "baseline Map.empty red_div = computed red_div"
    by (simp add: baseline_def getDefaultStyle_def getComputedStyle_def Let_def)
  have v: "propertyValue (baseline Map.empty red_div) ''display'' = ''block''"
    unfolding base by (simp add: propertyValue_def red_div_def)
  show ?thesis
    using a b style_delta [OF a, of Map.empty "[]"] style_delta [OF b, of Map.empty "[]"] s c n v
    by auto
qed

section \<open>Pruning\<close>

lemma find_append_cases:
  "List.find P (xs @ ys) = (case List.find P xs of None \<Rightarrow> List.find P ys | Some x \<Rightarrow> Some x)"
  by (induction xs) auto

lemma rulesFrom_off:
  "rulesFrom h w False rules r clean = Inr (clean @ map cssText (drop r rules))"
proof (induction h w "False" rules r clean rule: rulesFrom.induct)
  case (1 h w rules r clean)
  show ?case
  proof (cases "r < length rules")
    case True
    then have d: "drop r rules = rules ! r # drop (Suc r) rules" by (simp add: Cons_nth_drop_Suc)
    show ?thesis using True 1 by (subst rulesFrom.simps) (simp add: d)
  next
    case False
    then show ?thesis by (subst rulesFrom.simps) simp
  qed
qed

lemma rulesFrom_on:
  "rulesFrom h w True rules r clean =
     (case List.find (unparsable h w) (drop r rules) of
        Some rule \<Rightarrow> Inl (SyntaxError (selectorText rule))
      | None \<Rightarrow> Inr (clean @ map cssText (filter (matching h w) (drop r rules))))"
proof (induction h w "True" rules r clean rule: rulesFrom.induct)
  case (1 h w rules r clean)
  show ?case
  proof (cases "r < length rules")
    case False
    then show ?thesis by (subst rulesFrom.simps) simp
  next
    case True
    then have d: "drop r rules = rules ! r # drop (Suc r) rules" by (simp add: Cons_nth_drop_Suc)
    show ?thesis
    proof (cases "matchCount h (documentElement w) (selectorText (rules ! r))")
      case None
      then show ?thesis using True
        by (subst rulesFrom.simps) (simp add: d unparsable_def querySelectorAll_length_def split: option.splits)
    next
      case (Some n)
      then have q: "querySelectorAll_length h w (selectorText (rules ! r)) = Inr n"
        by (simp add: querySelectorAll_length_def)
      show ?thesis
        using True Some 1(1) [OF True, of "0 < n"] 1(2) [OF True, of "0 < n"]
        by (subst rulesFrom.simps) (simp add: d q unparsable_def matching_def split: option.splits)
    qed
  qed
qed

lemma usedFrom_off:
  "usedFrom h w False sheets i used = Inr (used @ map (map cssText) (drop i sheets))"
proof (induction h w "False" sheets i used rule: usedFrom.induct)
  case (1 h w sheets i used)
  show ?case
  proof (cases "i < length sheets")
    case True
    then have d: "drop i sheets = sheets ! i # drop (Suc i) sheets" by (simp add: Cons_nth_drop_Suc)
    show ?thesis using True 1 by (subst usedFrom.simps) (simp add: d rulesFrom_off)
  next
    case False
    then show ?thesis by (subst usedFrom.simps) simp
  qed
qed

lemma usedFrom_on:
  "usedFrom h w True sheets i used =
     (case List.find (unparsable h w) (concat (drop i sheets)) of
        Some rule \<Rightarrow> Inl (SyntaxError (selectorText rule))
      | None \<Rightarrow> Inr (used @ map (\<lambda>rules. map cssText (filter (matching h w) rules)) (drop i sheets)))"
proof (induction h w "True" sheets i used rule: usedFrom.induct)
  case (1 h w sheets i used)
  show ?case
  proof (cases "i < length sheets")
    case False
    then show ?thesis by (subst usedFrom.simps) simp
  next
    case True
    then have d: "drop i sheets = sheets ! i # drop (Suc i) sheets" by (simp add: Cons_nth_drop_Suc)
    show ?thesis
    proof (cases "List.find (unparsable h w) (sheets ! i)")
      case (Some rule)
      then show ?thesis using True
        by (subst usedFrom.simps) (simp add: d rulesFrom_on find_append_cases split: option.splits)
    next
      case None
      then show ?thesis using True 1 [OF True, of "map cssText (filter (matching h w) (sheets ! i))"]
        by (subst usedFrom.simps) (simp add: d rulesFrom_on find_append_cases split: option.splits)
    qed
  qed
qed

lemma getUsedStyles_nil: "getUsedStyles h w opt [] = Inr []"
  by (simp add: getUsedStyles_def usedFrom.simps)

text \<open>
  C10, as amended. With the flag off, getUsedStyles gives the text of every rule of every
  sheet, and asks no query. With the flag on and every selector one the query can parse, it
  gives, for every sheet, the texts of exactly those rules whose selector matches at least
  one element of the live document; in both cases one list per sheet, in the order of the
  sheets, the rules of a sheet in their order. With the flag on and a selector the query
  cannot parse, it gives no lists: it fails with the SyntaxError of the first such rule.
\<close>

theorem pruning:
  "getUsedStyles h w False sheets = Inr (map (map cssText) sheets)
   \<and> (List.find (unparsable h w) (concat sheets) = None
        \<longrightarrow> getUsedStyles h w True sheets =
             Inr (map (\<lambda>rules. map cssText (filter (matching h w) rules)) sheets))
   \<and> (\<forall>rule. List.find (unparsable h w) (concat sheets) = Some rule
        \<longrightarrow> getUsedStyles h w True sheets = Inl (SyntaxError (selectorText rule)))"
  by (simp add: getUsedStyles_def usedFrom_off usedFrom_on)

text \<open>
  The claim as stated fails: with the flag on, a sheet holding a page-margin rule, whose
  selector text is empty, gives no rule lists.
\<close>

theorem pruning_counterexample:
  "getUsedStyles offline blank_page True [[p_rule, h1_rule], [page_rule, p_rule]] = Inl (SyntaxError [])
   \<and> getUsedStyles offline blank_page True [[p_rule, h1_rule], [page_rule, p_rule]]
       \<noteq> Inr [[cssText p_rule], [cssText p_rule]]"
  by (simp add: getUsedStyles_def usedFrom_on unparsable_def offline_def count_p_def
      p_rule_def h1_rule_def page_rule_def)

theorem pruning_witness:
  "List.find (unparsable offline blank_page) (concat [[p_rule, h1_rule], [h1_rule], [p_rule]]) = None
   \<and> getUsedStyles offline blank_page True [[p_rule, h1_rule], [h1_rule], [p_rule]]
       = Inr [[''p { margin: 0px; }''], [], [''p { margin: 0px; }'']]
   \<and> List.find (unparsable offline blank_page) (concat [[p_rule, h1_rule], [page_rule, p_rule]]) = Some page_rule
   \<and> getUsedStyles offline blank_page True [[p_rule, h1_rule], [page_rule, p_rule]]
       = Inl (SyntaxError (selectorText page_rule))"
proof -
  have a: "List.find (unparsable offline blank_page) (concat [[p_rule, h1_rule], [h1_rule], [p_rule]]) = None"
    by (simp add: unparsable_def offline_def count_p_def p_rule_def h1_rule_def)
  have b: "List.find (unparsable offline blank_page) (concat [[p_rule, h1_rule], [page_rule, p_rule]]) = Some page_rule"
    by (simp add: unparsable_def offline_def count_p_def p_rule_def h1_rule_def page_rule_def)
  have m: "matching offline blank_page p_rule" "\<not> matching offline blank_page h1_rule"
    "cssText p_rule = ''p { margin: 0px; }''"
    by (simp_all add: matching_def offline_def count_p_def p_rule_def h1_rule_def)
  show ?thesis
    using a b pruning [of offline blank_page "[[p_rule, h1_rule], [h1_rule], [p_rule]]"]
      pruning [of offline blank_page "[[p_rule, h1_rule], [page_rule, p_rule]]"]
    by (simp add: m)
qed

section \<open>Collecting the style sheets\<close>

lemma loadCss_eq:
  "loadCss h u w =
     (loaded h u, w\<lparr>requests := requests w @ (if fetch h u = None then [u, proxyUrl @ u] else [u])\<rparr>)"
  by (simp add: loadCss_def loadCssWithCorsAnywhere_def request_def loaded_def split: option.splits)

lemma sheetRules_Inl:
  "(sheetRules h s = Inl e) = (unrecoverable h s \<and> e = FetchError (proxyUrl @ href s))"
  by (auto simp: sheetRules_def loaded_def unrecoverable_def split: option.splits)

lemma sheetsFrom_collect:
  "sheetsFrom h i acc w =
     (case collect h (drop i (styleSheets w)) of Inl e \<Rightarrow> Inl e | Inr rs \<Rightarrow> Inr (acc @ rs),
      w\<lparr>requests := requests w @ attempted h (drop i (styleSheets w))\<rparr>)"
proof (induction h i acc w rule: sheetsFrom.induct)
  case (1 h i acc w)
  show ?case
  proof (cases "i < length (styleSheets w)")
    case False
    then show ?thesis by (subst sheetsFrom.simps) simp
  next
    case True
    then have d: "drop i (styleSheets w) = styleSheets w ! i # drop (Suc i) (styleSheets w)"
      by (simp add: Cons_nth_drop_Suc)
    let ?s = "styleSheets w ! i"
    show ?thesis
    proof (cases "cssRules ?s")
      case (Some rules)
      then show ?thesis
        using True 1(2) [OF True refl Some]
        by (subst sheetsFrom.simps)
           (simp add: d sheetRules_def attempts_def unrecoverable_def Let_def split: sum.splits)
    next
      case None
      show ?thesis
      proof (cases "sheetRules h ?s")
        case (Inl e)
        then have u: "unrecoverable h ?s" "e = FetchError (proxyUrl @ href ?s)"
          by (simp_all add: sheetRules_Inl)
        have l: "loaded h (href ?s) = Inl e" using Inl None by (simp add: sheetRules_def)
        show ?thesis
          using True None Inl u l
          by (subst sheetsFrom.simps)
             (auto simp: d attempts_def loadCss_eq Let_def unrecoverable_def)
      next
        case (Inr rules)
        then have n: "\<not> unrecoverable h ?s" using sheetRules_Inl [of h ?s] by auto
        have l: "loadCss h (href ?s) w = (Inr rules, w\<lparr>requests := requests w @ attempts h ?s\<rparr>)"
          using Inr None by (auto simp: sheetRules_def loadCss_eq attempts_def)
        show ?thesis
          using True None Inr n l 1(1) [OF True refl None l [symmetric] refl]
          by (subst sheetsFrom.simps) (simp add: d Let_def split: sum.splits)
      qed
    qed
  qed
qed

lemma initializeStyleSheets_collect:
  "initializeStyleSheets h w =
     (collect h (styleSheets w), w\<lparr>requests := requests w @ attempted h (styleSheets w)\<rparr>)"
  by (simp add: initializeStyleSheets_def sheetsFrom_collect split: sum.splits)

lemma collect_Inr:
  "List.find (unrecoverable h) ss = None \<Longrightarrow>
     \<exists>rs. collect h ss = Inr rs \<and> length rs = length ss
          \<and> (\<forall>i<length ss. sheetRules h (ss ! i) = Inr (rs ! i))"
proof (induction ss)
  case Nil
  then show ?case by simp
next
  case (Cons s ss)
  from Cons.prems have n: "\<not> unrecoverable h s" and f: "List.find (unrecoverable h) ss = None"
    by (simp_all split: if_splits)
  obtain rules where r: "sheetRules h s = Inr rules"
    using n sheetRules_Inl [of h s] by (cases "sheetRules h s") auto
  obtain rs where rs: "collect h ss = Inr rs" "length rs = length ss"
    "\<forall>i<length ss. sheetRules h (ss ! i) = Inr (rs ! i)"
    using Cons.IH [OF f] by blast
  have "\<forall>i<length (s # ss). sheetRules h ((s # ss) ! i) = Inr ((rules # rs) ! i)"
    using r rs(3) by (auto simp: nth_Cons split: nat.splits)
  then show ?case using r rs by auto
qed

lemma collect_Inl:
  "List.find (unrecoverable h) ss = Some s \<Longrightarrow> collect h ss = Inl (FetchError (proxyUrl @ href s))"
proof (induction ss)
  case Nil
  then show ?case by simp
next
  case (Cons x ss)
  show ?case
  proof (cases "unrecoverable h x")
    case True
    then have "x = s" using Cons.prems by simp
    then show ?thesis using True sheetRules_Inl [of h s] by (cases "sheetRules h s") auto
  next
    case False
    then have f: "List.find (unrecoverable h) ss = Some s" using Cons.prems by simp
    obtain rules where r: "sheetRules h x = Inr rules"
      using False sheetRules_Inl [of h x] by (cases "sheetRules h x") auto
    show ?thesis using Cons.IH [OF f] r by simp
  qed
qed

text \<open>
  C3, as amended. For each sheet, in document order, the rule list is read directly; when
  that is blocked, the sheet's address is fetched; when that fetch fails, the address is
  fetched once more through the proxy. When no sheet is beyond recovery, the collection gives
  one rule list per sheet, in the order of the sheets: for a readable sheet its own rules, for
  a sheet reached through the proxy the rules parsed from the proxied text. When some sheet
  is beyond recovery, the collection as a whole fails, with the error of the proxy fetch for
  the first such sheet, and gives no list. The requests made are, sheet by sheet up to that
  sheet: none for a readable sheet, the address for a blocked one, and then the proxied
  address when the first fetch failed.
\<close>

theorem sheet_collection:
  "(List.find (unrecoverable h) (styleSheets w) = None
      \<longrightarrow> (\<exists>rs. fst (initializeStyleSheets h w) = Inr rs \<and> length rs = length (styleSheets w)
            \<and> (\<forall>i<length (styleSheets w).
                  (\<forall>rules. cssRules (styleSheets w ! i) = Some rules \<longrightarrow> rs ! i = rules)
                  \<and> (\<forall>text. cssRules (styleSheets w ! i) = None
                            \<and> fetch h (href (styleSheets w ! i)) = None
                            \<and> fetch h (proxyUrl @ href (styleSheets w ! i)) = Some text
                         \<longrightarrow> rs ! i = parseCss h text))))
   \<and> (\<forall>s. List.find (unrecoverable h) (styleSheets w) = Some s
         \<longrightarrow> fst (initializeStyleSheets h w) = Inl (FetchError (proxyUrl @ href s)))
   \<and> requests (snd (initializeStyleSheets h w)) = requests w @ attempted h (styleSheets w)"
proof (intro conjI impI allI)
  assume "List.find (unrecoverable h) (styleSheets w) = None"
  then obtain rs where rs: "collect h (styleSheets w) = Inr rs" "length rs = length (styleSheets w)"
    "\<forall>i<length (styleSheets w). sheetRules h (styleSheets w ! i) = Inr (rs ! i)"
    using collect_Inr by blast
  have "\<forall>i<length (styleSheets w).
          (\<forall>rules. cssRules (styleSheets w ! i) = Some rules \<longrightarrow> rs ! i = rules)
          \<and> (\<forall>text. cssRules (styleSheets w ! i) = None
                    \<and> fetch h (href (styleSheets w ! i)) = None
                    \<and> fetch h (proxyUrl @ href (styleSheets w ! i)) = Some text
                 \<longrightarrow> rs ! i = parseCss h text)"
  proof (intro allI impI)
    fix i assume "i < length (styleSheets w)"
    then have "sheetRules h (styleSheets w ! i) = Inr (rs ! i)" using rs(3) by simp
    then show "(\<forall>rules. cssRules (styleSheets w ! i) = Some rules \<longrightarrow> rs ! i = rules)
          \<and> (\<forall>text. cssRules (styleSheets w ! i) = None
                    \<and> fetch h (href (styleSheets w ! i)) = None
                    \<and> fetch h (proxyUrl @ href (styleSheets w ! i)) = Some text
                 \<longrightarrow> rs ! i = parseCss h text)"
      by (auto simp: sheetRules_def loaded_def)
  qed
  then show "\<exists>rs. fst (initializeStyleSheets h w) = Inr rs \<and> length rs = length (styleSheets w)
            \<and> (\<forall>i<length (styleSheets w).
                  (\<forall>rules. cssRules (styleSheets w ! i) = Some rules \<longrightarrow> rs ! i = rules)
                  \<and> (\<forall>text. cssRules (styleSheets w ! i) = None
                            \<and> fetch h (href (styleSheets w ! i)) = None
                            \<and> fetch h (proxyUrl @ href (styleSheets w ! i)) = Some text
                         \<longrightarrow> rs ! i = parseCss h text))"
    using rs(1,2) by (simp add: initializeStyleSheets_collect)
next
  fix s assume "List.find (unrecoverable h) (styleSheets w) = Some s"
  then show "fst (initializeStyleSheets h w) = Inl (FetchError (proxyUrl @ href s))"
    by (simp add: initializeStyleSheets_collect collect_Inl)
next
  show "requests (snd (initializeStyleSheets h w)) = requests w @ attempted h (styleSheets w)"
    by (simp add: initializeStyleSheets_collect)
qed

text \<open>
  The claim as stated fails: with a blocked sheet between two readable ones and no network,
  the collection does not give an empty rule list at the second position; it fails, after a
  fetch of the address and one fetch through the proxy.
\<close>

theorem sheet_collection_counterexample:
  "fst (initializeStyleSheets offline foreign_page)
     = Inl (FetchError ''https://cors-anywhere.herokuapp.com/https://cdn.example/a.css'')
   \<and> fst (initializeStyleSheets offline foreign_page) \<noteq> Inr [[p_rule], [], [p_rule]]
   \<and> requests (snd (initializeStyleSheets offline foreign_page))
     = [''https://cdn.example/a.css'', ''https://cors-anywhere.herokuapp.com/https://cdn.example/a.css'']"
  by (simp add: initializeStyleSheets_collect foreign_page_def blank_page_def own_sheet_def
      foreign_sheet_def offline_def sheetRules_def loaded_def unrecoverable_def attempts_def proxyUrl_def)

lemma foreign_sheets: "styleSheets foreign_page = [own_sheet, foreign_sheet, own_sheet]"
  by (simp add: foreign_page_def)

theorem sheet_collection_witness:
  "List.find (unrecoverable proxy_only) (styleSheets foreign_page) = None
   \<and> (\<exists>rs. fst (initializeStyleSheets proxy_only foreign_page) = Inr rs \<and> length rs = 3
          \<and> rs ! 0 = [p_rule] \<and> rs ! 1 = [p_rule] \<and> rs ! 2 = [p_rule])
   \<and> List.find (unrecoverable online) (styleSheets foreign_page) = None
   \<and> (\<exists>rs. fst (initializeStyleSheets online foreign_page) = Inr rs \<and> length rs = 3
          \<and> rs ! 0 = [p_rule] \<and> rs ! 2 = [p_rule])
   \<and> requests (snd (initializeStyleSheets online foreign_page)) = [''https://cdn.example/a.css'']
   \<and> List.find (unrecoverable offline) (styleSheets foreign_page) = Some foreign_sheet
   \<and> fst (initializeStyleSheets offline foreign_page)
       = Inl (FetchError ''https://cors-anywhere.herokuapp.com/https://cdn.example/a.css'')"
proof -
  have a: "List.find (unrecoverable proxy_only) (styleSheets foreign_page) = None"
    by (simp add: foreign_sheets unrecoverable_def own_sheet_def foreign_sheet_def proxy_only_def
        proxyUrl_def)
  have b: "List.find (unrecoverable online) (styleSheets foreign_page) = None"
    by (simp add: foreign_sheets unrecoverable_def own_sheet_def foreign_sheet_def online_def)
  have c: "List.find (unrecoverable offline) (styleSheets foreign_page) = Some foreign_sheet"
    by (simp add: foreign_sheets unrecoverable_def own_sheet_def foreign_sheet_def offline_def)
  have s: "cssRules own_sheet = Some [p_rule]" "cssRules foreign_sheet = None"
    "href foreign_sheet = ''https://cdn.example/a.css''"
    "fetch proxy_only ''https://cdn.example/a.css'' = None"
    "fetch proxy_only (proxyUrl @ ''https://cdn.example/a.css'') = Some ''p{margin:0}''"
    "parseCss proxy_only ''p{margin:0}'' = [p_rule]"
    by (simp_all add: own_sheet_def foreign_sheet_def proxy_only_def proxyUrl_def parse_p_def)
  note t1 = sheet_collection [of proxy_only foreign_page]
  note t2 = sheet_collection [of online foreign_page]
  note t3 = sheet_collection [of offline foreign_page]
  obtain rs where rs: "fst (initializeStyleSheets proxy_only foreign_page) = Inr rs" "length rs = 3"
    "\<forall>i<3. (\<forall>rules. cssRules ([own_sheet, foreign_sheet, own_sheet] ! i) = Some rules \<longrightarrow> rs ! i = rules)
          \<and> (\<forall>text. cssRules ([own_sheet, foreign_sheet, own_sheet] ! i) = None
                    \<and> fetch proxy_only (href ([own_sheet, foreign_sheet, own_sheet] ! i)) = None
                    \<and> fetch proxy_only (proxyUrl @ href ([own_sheet, foreign_sheet, own_sheet] ! i)) = Some text
                 \<longrightarrow> rs ! i = parseCss proxy_only text)"
    using t1 a by (auto simp: foreign_sheets)
  have 1: "rs ! 0 = [p_rule]" "rs ! 1 = [p_rule]" "rs ! 2 = [p_rule]"
    using rs(3) [rule_format, of 0] rs(3) [rule_format, of 1] rs(3) [rule_format, of 2] s
    by simp_all
  obtain qs where qs: "fst (initializeStyleSheets online foreign_page) = Inr qs" "length qs = 3"
    "\<forall>i<3. (\<forall>rules. cssRules ([own_sheet, foreign_sheet, own_sheet] ! i) = Some rules \<longrightarrow> qs ! i = rules)"
    using t2 b by (auto simp: foreign_sheets)
  have 2: "qs ! 0 = [p_rule]" "qs ! 2 = [p_rule]"
    using qs(3) [rule_format, of 0] qs(3) [rule_format, of 2] s by simp_all
  have 3: "requests (snd (initializeStyleSheets online foreign_page)) = [''https://cdn.example/a.css'']"
    using t2 by (simp add: foreign_sheets) (simp add: foreign_page_def blank_page_def attempts_def
        unrecoverable_def own_sheet_def foreign_sheet_def online_def)
  have 4: "fst (initializeStyleSheets offline foreign_page)
       = Inl (FetchError ''https://cors-anywhere.herokuapp.com/https://cdn.example/a.css'')"
    using t3 c by (simp add: foreign_sheet_def proxyUrl_def)
  show ?thesis
    using a b c rs(1,2) 1 qs(1,2) 2 3 4 by auto
qed

section \<open>The snapshot operation\<close>

lemma upper_html_body: "toUpperCase ''html'' = ''HTML''" "toUpperCase ''body'' = ''BODY''"
  by (simp_all add: toUpperCase_def)

lemma createErrorDocument_eq:
  "createErrorDocument h e w = (errorDocument h e (doctype w), w\<lparr>doctype := None\<rparr>)"
  by (simp add: createErrorDocument_def createDocument_def createElement_def errorDocument_def
      upper_html_body)

text \<open>A build leaves the store, its log and its limits as they were.\<close>

lemma finalize_store: "finalize h opt node sheets w = (r, w1) \<Longrightarrow> sameStore w1 w"
  by (auto simp: finalize_def createDocument_def appendHeadToLive_def sameStore_def
      split: option.splits sum.splits if_splits)

lemma createDomElements_store: "createDomElements h w = (r, w1) \<Longrightarrow> sameStore w1 w"
  by (auto simp: createDomElements_def initializeStyleSheets_collect sameStore_def
      split: prod.splits)

lemma build_store:
  assumes "build h opt w = (r, w1)"
  shows "sameStore w1 w"
proof -
  obtain r0 w0 where c: "createDomElements h w = (r0, w0)" by (cases "createDomElements h w")
  have s0: "sameStore w0 w" using createDomElements_store [OF c] .
  show ?thesis
  proof (cases r0)
    case (Inl e)
    then show ?thesis using assms c s0 by (simp add: build_def)
  next
    case (Inr p)
    obtain rootNode sheets where p: "p = (rootNode, sheets)" by (cases p)
    show ?thesis
    proof (cases "implicitGlobals h")
      case False
      then show ?thesis using assms c s0 Inr p by (simp add: build_def)
    next
      case True
      then have "finalize h opt rootNode sheets w0 = (r, w1)"
        using assms c Inr p by (simp add: build_def)
      then have "sameStore w1 w0" by (rule finalize_store)
      then show ?thesis using s0 by (simp add: sameStore_def)
    qed
  qed
qed

lemma tryBuild_store: "sameStore (snd (tryBuild h opt w)) w"
proof (cases "build h opt w")
  case (Pair r w1)
  then show ?thesis using build_store [OF Pair]
    by (cases r) (simp_all add: tryBuild_def createErrorDocument_eq sameStore_def)
qed

lemma rebuild_eq:
  assumes "storageAvailable w"
  shows "rebuild h opt w =
     (if sessionStorage w ''allow_snapshot'' = Some ''true''
      then (if storageAccepts w (sessionStorage w) ''dom_snapshot'' (serializeToString h (fst (tryBuild h opt w)))
            then (Inr (serializeToString h (fst (tryBuild h opt w))),
                  (snd (tryBuild h opt w))
                    \<lparr>sessionStorage := (sessionStorage w)(''dom_snapshot'' \<mapsto> serializeToString h (fst (tryBuild h opt w))),
                      storageLog := storageLog w @ [GetItem ''allow_snapshot'',
                        SetItem ''dom_snapshot'' (serializeToString h (fst (tryBuild h opt w)))]\<rparr>)
            else (Inl QuotaExceededError,
                  (snd (tryBuild h opt w))
                    \<lparr>storageLog := storageLog w @ [GetItem ''allow_snapshot'',
                        SetItem ''dom_snapshot'' (serializeToString h (fst (tryBuild h opt w)))]\<rparr>))
      else (Inr (serializeToString h (fst (tryBuild h opt w))),
            (snd (tryBuild h opt w))\<lparr>storageLog := storageLog w @ [GetItem ''allow_snapshot'']\<rparr>))"
proof -
  obtain doc w1 where t: "tryBuild h opt w = (doc, w1)" by (cases "tryBuild h opt w")
  have s: "sessionStorage w1 = sessionStorage w" "storageLog w1 = storageLog w"
    "storageAvailable w1" "storageAccepts w1 = storageAccepts w"
    using tryBuild_store [of h opt w] t assms by (simp_all add: sameStore_def)
  show ?thesis
    by (simp add: rebuild_def getItem_def setItem_def t s Let_def)
qed

lemma domWithStyles_eq:
  "domWithStyles h opt w =
     (if \<not> storageAvailable w then (Inl SecurityError, w)
      else if served w
      then (Inr (the (sessionStorage w ''dom_snapshot'')),
            w\<lparr>storageLog := storageLog w @ [GetItem ''allow_snapshot'', GetItem ''dom_snapshot'']\<rparr>)
      else rebuild h opt (atBuild w))"
  by (auto simp: domWithStyles_def served_def atBuild_def getItem_def split: option.splits)

lemma atBuild_store:
  "sessionStorage (atBuild w) = sessionStorage w" "storageAvailable (atBuild w) = storageAvailable w"
  "storageAccepts (atBuild w) = storageAccepts w"
  by (simp_all add: atBuild_def)

text \<open>
  Where assigning to the undeclared names of line 486 is an error, no build succeeds: the
  error is caught like any other.
\<close>

lemma strict_build_fails: "\<not> implicitGlobals h \<Longrightarrow> \<exists>e. fst (build h opt w) = Inl e"
  by (auto simp: build_def split: prod.splits sum.splits)

text \<open>
  C4, as amended. domWithStyles resolves with a string exactly when every storage call it
  makes succeeds: the store is available, and the snapshot, where it is to be stored, is
  accepted. Where the store is not available the promise rejects with the SecurityError; where
  the store does not accept the snapshot it rejects with the QuotaExceededError. Every failure
  of the build itself, in collecting the sheets, in cloning or in assembling, is caught: when
  the promise resolves after a failed build, the string is the serialisation of the error
  document, whose body holds the error's text; after a successful build it is the
  serialisation of the document built.
\<close>

theorem snapshot_settles:
  "((\<exists>dom. fst (domWithStyles h opt w) = Inr dom) =
      (storageAvailable w
       \<and> (served w \<or> sessionStorage w ''allow_snapshot'' \<noteq> Some ''true''
          \<or> storageAccepts w (sessionStorage w) ''dom_snapshot''
               (serializeToString h (fst (tryBuild h opt (atBuild w)))))))
   \<and> (\<not> storageAvailable w \<longrightarrow> fst (domWithStyles h opt w) = Inl SecurityError)
   \<and> (storageAvailable w \<and> \<not> served w \<and> sessionStorage w ''allow_snapshot'' = Some ''true''
        \<and> \<not> storageAccepts w (sessionStorage w) ''dom_snapshot''
               (serializeToString h (fst (tryBuild h opt (atBuild w))))
        \<longrightarrow> fst (domWithStyles h opt w) = Inl QuotaExceededError)
   \<and> (\<forall>e w1 dom. \<not> served w \<and> build h opt (atBuild w) = (Inl e, w1)
          \<and> fst (domWithStyles h opt w) = Inr dom
        \<longrightarrow> dom = serializeToString h (errorDocument h e (doctype w1)))
   \<and> (\<forall>doc w1 dom. \<not> served w \<and> build h opt (atBuild w) = (Inr doc, w1)
          \<and> fst (domWithStyles h opt w) = Inr dom
        \<longrightarrow> dom = serializeToString h doc)"
proof (cases "storageAvailable w")
  case False
  then show ?thesis by (simp add: domWithStyles_eq)
next
  case True
  then have a: "storageAvailable (atBuild w)" by (simp add: atBuild_store)
  show ?thesis
    using True
    by (auto simp: domWithStyles_eq rebuild_eq [OF a] atBuild_store tryBuild_def
        createErrorDocument_eq split: if_splits)
qed

lemma build_blank:
  assumes "documentElement w = documentElement blank_page" and "styleSheets w = []"
    and "head w = JObject"
  shows "build offline opt w =
     (Inr \<lparr>odoctype = doctype w, oroot = CElement ''HTML'' [] [] []\<rparr>, w\<lparr>doctype := None\<rparr>)"
proof -
  have c: "deepCloneWithStyles Map.empty [] [] (documentElement w) =
      (Some (CElement ''HTML'' [] [] []), Map.empty)"
    by (simp add: assms(1) blank_page_def toUpperCase_def toLowerCase_def ignoreTags_def
        noStyleTags_def)
  have d: "createDomElements offline w = (Inr (Some (CElement ''HTML'' [] [] []), []), w)"
    by (simp add: createDomElements_def initializeStyleSheets_collect assms(2) c)
  show ?thesis
    by (simp add: build_def d finalize_def createDocument_def assms(3) getUsedStyles_nil)
       (simp add: offline_def)
qed

text \<open>
  The claim as stated fails: on a page that may not use the store the promise rejects with
  the SecurityError of the first storage call, and on a page with caching on whose store does
  not take the snapshot it rejects with the QuotaExceededError, after a build that succeeded.
\<close>

theorem snapshot_rejects_counterexample:
  "fst (domWithStyles offline False locked_page) = Inl SecurityError
   \<and> fst (build offline False (atBuild full_page)) = Inr \<lparr>odoctype = Some ''html'', oroot = CElement ''HTML'' [] [] []\<rparr>
   \<and> fst (domWithStyles offline False full_page) = Inl QuotaExceededError"
proof -
  have 1: "fst (domWithStyles offline False locked_page) = Inl SecurityError"
    by (simp add: domWithStyles_eq locked_page_def)
  have w: "documentElement (atBuild full_page) = documentElement blank_page"
    "styleSheets (atBuild full_page) = []" "head (atBuild full_page) = JObject"
    "doctype (atBuild full_page) = Some ''html''"
    by (simp_all add: atBuild_def full_page_def enabled_page_def blank_page_def)
  have 2: "fst (build offline False (atBuild full_page)) = Inr \<lparr>odoctype = Some ''html'', oroot = CElement ''HTML'' [] [] []\<rparr>"
    by (simp add: build_blank [OF w(1,2,3)] w(4))
  have a: "storageAvailable (atBuild full_page)" "storageAvailable full_page" "\<not> served full_page"
    "sessionStorage full_page ''allow_snapshot'' = Some ''true''"
    by (simp_all add: atBuild_def full_page_def enabled_page_def blank_page_def served_def)
  have z: "\<And>x. serializeToString offline x = ''<snapshot/>''" by (simp add: offline_def)
  have q: "\<not> storageAccepts (atBuild full_page) (sessionStorage (atBuild full_page)) ''dom_snapshot'' ''<snapshot/>''"
    by (simp add: atBuild_def full_page_def)
  have 3: "fst (domWithStyles offline False full_page) = Inl QuotaExceededError"
    using a q by (simp add: domWithStyles_eq rebuild_eq [OF a(1)] z atBuild_store)
  show ?thesis using 1 2 3 by simp
qed

lemma build_foreign:
  "build offline False (atBuild foreign_page) =
     (Inl (FetchError ''https://cors-anywhere.herokuapp.com/https://cdn.example/a.css''),
      (atBuild foreign_page)\<lparr>requests :=
         [''https://cdn.example/a.css'', ''https://cors-anywhere.herokuapp.com/https://cdn.example/a.css'']\<rparr>)"
proof -
  have w: "styleSheets (atBuild foreign_page) = [own_sheet, foreign_sheet, own_sheet]"
    "requests (atBuild foreign_page) = []"
    by (simp_all add: atBuild_def foreign_page_def blank_page_def)
  have r: "sheetRules offline own_sheet = Inr [p_rule]"
    "sheetRules offline foreign_sheet = Inl (FetchError ''https://cors-anywhere.herokuapp.com/https://cdn.example/a.css'')"
    "\<not> unrecoverable offline own_sheet" "unrecoverable offline foreign_sheet"
    "attempts offline own_sheet = []"
    "attempts offline foreign_sheet =
       [''https://cdn.example/a.css'', ''https://cors-anywhere.herokuapp.com/https://cdn.example/a.css'']"
    by (simp_all add: sheetRules_def loaded_def unrecoverable_def attempts_def own_sheet_def
        foreign_sheet_def offline_def proxyUrl_def)
  show ?thesis
    by (simp add: build_def createDomElements_def initializeStyleSheets_collect w r
        split: prod.splits)
qed

theorem snapshot_settles_witness:
  "\<not> storageAvailable locked_page
   \<and> fst (domWithStyles offline False locked_page) = Inl SecurityError
   \<and> storageAvailable full_page \<and> \<not> served full_page
   \<and> sessionStorage full_page ''allow_snapshot'' = Some ''true''
   \<and> \<not> storageAccepts full_page (sessionStorage full_page) ''dom_snapshot''
        (serializeToString offline (fst (tryBuild offline False (atBuild full_page))))
   \<and> fst (domWithStyles offline False full_page) = Inl QuotaExceededError
   \<and> \<not> served foreign_page
   \<and> build offline False (atBuild foreign_page) =
       (Inl (FetchError ''https://cors-anywhere.herokuapp.com/https://cdn.example/a.css''),
        (atBuild foreign_page)\<lparr>requests :=
         [''https://cdn.example/a.css'', ''https://cors-anywhere.herokuapp.com/https://cdn.example/a.css'']\<rparr>)
   \<and> fst (domWithStyles offline False foreign_page) =
       Inr (serializeToString offline
             \<lparr>odoctype = Some ''html'',
              oroot = CElement ''HTML'' [] [] [CElement ''BODY'' [] [] [CMarkup ''TypeError: Failed to fetch'']]\<rparr>)
   \<and> \<not> served blank_page
   \<and> build offline False (atBuild blank_page) =
       (Inr \<lparr>odoctype = Some ''html'', oroot = CElement ''HTML'' [] [] []\<rparr>,
        (atBuild blank_page)\<lparr>doctype := None\<rparr>)
   \<and> fst (domWithStyles offline False blank_page) =
       Inr (serializeToString offline \<lparr>odoctype = Some ''html'', oroot = CElement ''HTML'' [] [] []\<rparr>)"
proof -
  have z: "\<And>x. serializeToString offline x = ''<snapshot/>''" by (simp add: offline_def)
  have l: "\<not> storageAvailable locked_page" by (simp add: locked_page_def)
  have f: "storageAvailable full_page \<and> \<not> served full_page
      \<and> sessionStorage full_page ''allow_snapshot'' = Some ''true''
      \<and> \<not> storageAccepts full_page (sessionStorage full_page) ''dom_snapshot''
        (serializeToString offline (fst (tryBuild offline False (atBuild full_page))))"
    by (simp add: z) (simp add: full_page_def enabled_page_def blank_page_def served_def)
  have s: "\<not> served foreign_page" "storageAvailable foreign_page"
    "sessionStorage foreign_page ''allow_snapshot'' \<noteq> Some ''true''"
    by (simp_all add: served_def foreign_page_def blank_page_def)
  have b: "\<not> served blank_page" "storageAvailable blank_page"
    "sessionStorage blank_page ''allow_snapshot'' \<noteq> Some ''true''"
    by (simp_all add: served_def blank_page_def)
  have d: "doctype ((atBuild foreign_page)\<lparr>requests :=
         [''https://cdn.example/a.css'', ''https://cors-anywhere.herokuapp.com/https://cdn.example/a.css'']\<rparr>)
        = Some ''html''"
    by (simp add: atBuild_def foreign_page_def blank_page_def)
  have e: "errorText offline (FetchError ''https://cors-anywhere.herokuapp.com/https://cdn.example/a.css'')
        = ''TypeError: Failed to fetch''"
    by (simp add: offline_def describe_def)
  have w: "documentElement (atBuild blank_page) = documentElement blank_page"
    "styleSheets (atBuild blank_page) = []" "head (atBuild blank_page) = JObject"
    "doctype (atBuild blank_page) = Some ''html''"
    by (simp_all add: atBuild_def blank_page_def)
  have bb: "build offline False (atBuild blank_page) =
       (Inr \<lparr>odoctype = Some ''html'', oroot = CElement ''HTML'' [] [] []\<rparr>,
        (atBuild blank_page)\<lparr>doctype := None\<rparr>)"
    by (simp add: build_blank [OF w(1,2,3)] w(4))
  note t1 = snapshot_settles [of offline False locked_page]
  note t2 = snapshot_settles [of offline False full_page]
  note t3 = snapshot_settles [of offline False foreign_page]
  note t4 = snapshot_settles [of offline False blank_page]
  have 1: "fst (domWithStyles offline False locked_page) = Inl SecurityError"
    using t1 l by blast
  have 2: "fst (domWithStyles offline False full_page) = Inl QuotaExceededError"
    using t2 f by blast
  obtain dom3 where r3: "fst (domWithStyles offline False foreign_page) = Inr dom3"
    using t3 s by blast
  have 3: "dom3 = serializeToString offline (errorDocument offline
       (FetchError ''https://cors-anywhere.herokuapp.com/https://cdn.example/a.css'') (Some ''html''))"
    using t3 s(1) build_foreign r3 d by metis
  obtain dom4 where r4: "fst (domWithStyles offline False blank_page) = Inr dom4"
    using t4 b by blast
  have 4: "dom4 = serializeToString offline \<lparr>odoctype = Some ''html'', oroot = CElement ''HTML'' [] [] []\<rparr>"
    using t4 b(1) bb r4 by metis
  show ?thesis
    using l f 1 2 s(1) build_foreign b(1) bb r3 3 r4 4
    by (simp add: errorDocument_def e)
qed

lemma finalize_doctype: "finalize h opt node sheets w = (r, w1) \<Longrightarrow> doctype w1 = None"
  by (auto simp: finalize_def createDocument_def appendHeadToLive_def
      split: option.splits sum.splits if_splits)

lemma tryBuild_doctype: "doctype (snd (tryBuild h opt w)) = None"
  by (auto simp: tryBuild_def build_def createErrorDocument_eq
      split: prod.splits sum.splits if_splits dest: finalize_doctype)

lemma domWithStyles_doctype:
  "storageAvailable w \<Longrightarrow> \<not> served w \<Longrightarrow> doctype (snd (domWithStyles h opt w)) = None"
  using tryBuild_doctype [of h opt "atBuild w"]
  by (simp add: domWithStyles_eq rebuild_eq atBuild_store)

text \<open>
  C6, as amended. On a page that may use the store: (1) with allow_snapshot 'true' and a
  stored dom_snapshot that is not the empty string, the stored string is returned and nothing
  else happens: the world changes by the two reads only. (2) With allow_snapshot unset or not
  'true', the result is the serialisation of a fresh build, the store is unchanged, and the
  only accesses are two reads of allow_snapshot. (3) With allow_snapshot 'true' and no usable
  stored snapshot, the result is the serialisation of a fresh build, and it is stored under
  dom_snapshot, when the store accepts it; when the store does not accept it, the promise
  rejects with the QuotaExceededError and the store is unchanged. (4) With allow_snapshot
  'true', a request that resolved with a non-empty string is followed by a request that
  resolves with the same string, whatever its flag. (5) On a page that may not use the store
  the promise rejects and the world is unchanged.
\<close>

theorem snapshot_cache:
  "(\<forall>s. storageAvailable w \<and> sessionStorage w ''allow_snapshot'' = Some ''true''
        \<and> sessionStorage w ''dom_snapshot'' = Some s \<and> s \<noteq> []
       \<longrightarrow> domWithStyles h opt w =
            (Inr s, w\<lparr>storageLog := storageLog w @ [GetItem ''allow_snapshot'', GetItem ''dom_snapshot'']\<rparr>))
   \<and> (storageAvailable w \<and> sessionStorage w ''allow_snapshot'' \<noteq> Some ''true''
       \<longrightarrow> fst (domWithStyles h opt w) = Inr (serializeToString h (fst (tryBuild h opt (atBuild w))))
          \<and> sessionStorage (snd (domWithStyles h opt w)) = sessionStorage w
          \<and> storageLog (snd (domWithStyles h opt w))
              = storageLog w @ [GetItem ''allow_snapshot'', GetItem ''allow_snapshot''])
   \<and> (storageAvailable w \<and> sessionStorage w ''allow_snapshot'' = Some ''true''
        \<and> \<not> truthy (sessionStorage w ''dom_snapshot'')
        \<and> storageAccepts w (sessionStorage w) ''dom_snapshot''
             (serializeToString h (fst (tryBuild h opt (atBuild w))))
       \<longrightarrow> fst (domWithStyles h opt w) = Inr (serializeToString h (fst (tryBuild h opt (atBuild w))))
          \<and> sessionStorage (snd (domWithStyles h opt w))
              = (sessionStorage w)(''dom_snapshot'' \<mapsto> serializeToString h (fst (tryBuild h opt (atBuild w)))))
   \<and> (storageAvailable w \<and> sessionStorage w ''allow_snapshot'' = Some ''true''
        \<and> \<not> truthy (sessionStorage w ''dom_snapshot'')
        \<and> \<not> storageAccepts w (sessionStorage w) ''dom_snapshot''
             (serializeToString h (fst (tryBuild h opt (atBuild w))))
       \<longrightarrow> fst (domWithStyles h opt w) = Inl QuotaExceededError
          \<and> sessionStorage (snd (domWithStyles h opt w)) = sessionStorage w)
   \<and> (\<forall>dom opt'. sessionStorage w ''allow_snapshot'' = Some ''true''
        \<and> fst (domWithStyles h opt w) = Inr dom \<and> dom \<noteq> []
       \<longrightarrow> fst (domWithStyles h opt' (snd (domWithStyles h opt w))) = Inr dom)
   \<and> (\<not> storageAvailable w \<longrightarrow> domWithStyles h opt w = (Inl SecurityError, w))"
proof (intro conjI allI impI)
  fix s
  assume "storageAvailable w \<and> sessionStorage w ''allow_snapshot'' = Some ''true''
     \<and> sessionStorage w ''dom_snapshot'' = Some s \<and> s \<noteq> []"
  then show "domWithStyles h opt w =
     (Inr s, w\<lparr>storageLog := storageLog w @ [GetItem ''allow_snapshot'', GetItem ''dom_snapshot'']\<rparr>)"
    by (simp add: domWithStyles_eq served_def)
next
  assume a: "storageAvailable w \<and> sessionStorage w ''allow_snapshot'' \<noteq> Some ''true''"
  then have n: "\<not> served w" "storageAvailable (atBuild w)"
    "storageLog (atBuild w) = storageLog w @ [GetItem ''allow_snapshot'']"
    by (simp_all add: served_def atBuild_def)
  show "fst (domWithStyles h opt w) = Inr (serializeToString h (fst (tryBuild h opt (atBuild w))))"
    using n a by (simp add: domWithStyles_eq rebuild_eq atBuild_store)
  show "sessionStorage (snd (domWithStyles h opt w)) = sessionStorage w"
    using n a tryBuild_store [of h opt "atBuild w"]
    by (simp add: domWithStyles_eq rebuild_eq atBuild_store sameStore_def)
  show "storageLog (snd (domWithStyles h opt w))
              = storageLog w @ [GetItem ''allow_snapshot'', GetItem ''allow_snapshot'']"
    using n a by (simp add: domWithStyles_eq rebuild_eq atBuild_store)
next
  assume a: "storageAvailable w \<and> sessionStorage w ''allow_snapshot'' = Some ''true''
        \<and> \<not> truthy (sessionStorage w ''dom_snapshot'')
        \<and> storageAccepts w (sessionStorage w) ''dom_snapshot''
             (serializeToString h (fst (tryBuild h opt (atBuild w))))"
  then have n: "\<not> served w" "storageAvailable (atBuild w)"
    by (simp_all add: served_def atBuild_def)
  show "fst (domWithStyles h opt w) = Inr (serializeToString h (fst (tryBuild h opt (atBuild w))))"
    using n a by (simp add: domWithStyles_eq rebuild_eq atBuild_store)
  show "sessionStorage (snd (domWithStyles h opt w))
              = (sessionStorage w)(''dom_snapshot'' \<mapsto> serializeToString h (fst (tryBuild h opt (atBuild w))))"
    using n a by (simp add: domWithStyles_eq rebuild_eq atBuild_store)
next
  assume a: "storageAvailable w \<and> sessionStorage w ''allow_snapshot'' = Some ''true''
        \<and> \<not> truthy (sessionStorage w ''dom_snapshot'')
        \<and> \<not> storageAccepts w (sessionStorage w) ''dom_snapshot''
             (serializeToString h (fst (tryBuild h opt (atBuild w))))"
  then have n: "\<not> served w" "storageAvailable (atBuild w)"
    by (simp_all add: served_def atBuild_def)
  show "fst (domWithStyles h opt w) = Inl QuotaExceededError"
    using n a by (simp add: domWithStyles_eq rebuild_eq atBuild_store)
  show "sessionStorage (snd (domWithStyles h opt w)) = sessionStorage w"
    using n a tryBuild_store [of h opt "atBuild w"]
    by (simp add: domWithStyles_eq rebuild_eq atBuild_store sameStore_def)
next
  fix dom opt'
  assume a: "sessionStorage w ''allow_snapshot'' = Some ''true''
     \<and> fst (domWithStyles h opt w) = Inr dom \<and> dom \<noteq> []"
  let ?w = "snd (domWithStyles h opt w)"
  have av: "storageAvailable w" using a by (auto simp: domWithStyles_eq split: if_splits)
  then have ab: "storageAvailable (atBuild w)" by (simp add: atBuild_store)
  have k: "storageAvailable ?w \<and> sessionStorage ?w ''allow_snapshot'' = Some ''true''
      \<and> sessionStorage ?w ''dom_snapshot'' = Some dom"
  proof (cases "served w")
    case True
    then show ?thesis using a av
      by (cases "sessionStorage w ''dom_snapshot''") (auto simp: domWithStyles_eq served_def)
  next
    case False
    then show ?thesis using a av tryBuild_store [of h opt "atBuild w"]
      by (auto simp: domWithStyles_eq rebuild_eq [OF ab] atBuild_store sameStore_def
          split: if_splits)
  qed
  then have "served ?w" using a by (simp add: served_def)
  then show "fst (domWithStyles h opt' ?w) = Inr dom"
    using k by (simp add: domWithStyles_eq)
next
  assume "\<not> storageAvailable w"
  then show "domWithStyles h opt w = (Inl SecurityError, w)"
    by (simp add: domWithStyles_eq)
qed

text \<open>
  The claim as stated fails when the stored dom_snapshot is the empty string: it does not
  pass the test of line 480, so it is not returned; a build runs (it takes the doctype out of
  the live document) and its result is returned. It also fails on a page with caching on
  whose store does not take the snapshot: the build succeeds, nothing is stored back, and the
  promise rejects.
\<close>

theorem snapshot_cache_counterexample:
  "sessionStorage (caching_page []) ''allow_snapshot'' = Some ''true''
   \<and> sessionStorage (caching_page []) ''dom_snapshot'' = Some []
   \<and> fst (domWithStyles offline False (caching_page [])) = Inr ''<snapshot/>''
   \<and> fst (domWithStyles offline False (caching_page [])) \<noteq> Inr []
   \<and> doctype (caching_page []) = Some ''html''
   \<and> doctype (snd (domWithStyles offline False (caching_page []))) = None
   \<and> sessionStorage full_page ''allow_snapshot'' = Some ''true''
   \<and> fst (build offline False (atBuild full_page)) = Inr \<lparr>odoctype = Some ''html'', oroot = CElement ''HTML'' [] [] []\<rparr>
   \<and> fst (domWithStyles offline False full_page) = Inl QuotaExceededError
   \<and> sessionStorage (snd (domWithStyles offline False full_page)) ''dom_snapshot'' = None"
proof -
  have z: "\<And>x. serializeToString offline x = ''<snapshot/>''" by (simp add: offline_def)
  have s: "\<not> served (caching_page [])" "storageAvailable (caching_page [])"
    "storageAvailable (atBuild (caching_page []))"
    "sessionStorage (caching_page []) ''allow_snapshot'' = Some ''true''"
    "storageAccepts (caching_page []) = (\<lambda>store k v. True)"
    by (simp_all add: served_def caching_page_def blank_page_def atBuild_def)
  have r: "fst (domWithStyles offline False (caching_page [])) = Inr ''<snapshot/>''"
    using s by (simp add: domWithStyles_eq rebuild_eq atBuild_store z)
  have w: "documentElement (atBuild full_page) = documentElement blank_page"
    "styleSheets (atBuild full_page) = []" "head (atBuild full_page) = JObject"
    "doctype (atBuild full_page) = Some ''html''"
    by (simp_all add: atBuild_def full_page_def enabled_page_def blank_page_def)
  have 2: "fst (build offline False (atBuild full_page)) = Inr \<lparr>odoctype = Some ''html'', oroot = CElement ''HTML'' [] [] []\<rparr>"
    by (simp add: build_blank [OF w(1,2,3)] w(4))
  have a: "storageAvailable (atBuild full_page)" "storageAvailable full_page" "\<not> served full_page"
    "sessionStorage full_page ''allow_snapshot'' = Some ''true''"
    "sessionStorage full_page ''dom_snapshot'' = None"
    by (simp_all add: atBuild_def full_page_def enabled_page_def blank_page_def served_def)
  have q: "\<not> storageAccepts full_page (sessionStorage full_page) ''dom_snapshot'' ''<snapshot/>''"
    by (simp add: full_page_def)
  have 3: "fst (domWithStyles offline False full_page) = Inl QuotaExceededError"
    using a q by (simp add: domWithStyles_eq rebuild_eq [OF a(1)] z atBuild_store)
  have 4: "sessionStorage (snd (domWithStyles offline False full_page)) ''dom_snapshot'' = None"
    using a q tryBuild_store [of offline False "atBuild full_page"]
    by (simp add: domWithStyles_eq rebuild_eq [OF a(1)] z atBuild_store sameStore_def)
  show ?thesis
    using s r 2 3 4 a(4) by (simp add: domWithStyles_doctype) (simp add: caching_page_def blank_page_def)
qed

theorem snapshot_cache_witness:
  "storageAvailable (caching_page ''<html/>'')
   \<and> sessionStorage (caching_page ''<html/>'') ''allow_snapshot'' = Some ''true''
   \<and> sessionStorage (caching_page ''<html/>'') ''dom_snapshot'' = Some ''<html/>'' \<and> ''<html/>'' \<noteq> []
   \<and> fst (domWithStyles offline True (caching_page ''<html/>'')) = Inr ''<html/>''
   \<and> doctype (snd (domWithStyles offline True (caching_page ''<html/>''))) = Some ''html''
   \<and> storageAvailable blank_page \<and> sessionStorage blank_page ''allow_snapshot'' \<noteq> Some ''true''
   \<and> sessionStorage (snd (domWithStyles offline True blank_page)) = Map.empty
   \<and> storageLog (snd (domWithStyles offline True blank_page))
       = [GetItem ''allow_snapshot'', GetItem ''allow_snapshot'']
   \<and> storageAvailable enabled_page \<and> sessionStorage enabled_page ''allow_snapshot'' = Some ''true''
   \<and> \<not> truthy (sessionStorage enabled_page ''dom_snapshot'')
   \<and> storageAccepts enabled_page (sessionStorage enabled_page) ''dom_snapshot''
        (serializeToString offline (fst (tryBuild offline True (atBuild enabled_page))))
   \<and> fst (domWithStyles offline True enabled_page) = Inr ''<snapshot/>''
   \<and> sessionStorage (snd (domWithStyles offline True enabled_page)) ''dom_snapshot'' = Some ''<snapshot/>''
   \<and> fst (domWithStyles offline False (snd (domWithStyles offline True enabled_page))) = Inr ''<snapshot/>''
   \<and> storageAvailable full_page \<and> sessionStorage full_page ''allow_snapshot'' = Some ''true''
   \<and> \<not> truthy (sessionStorage full_page ''dom_snapshot'')
   \<and> \<not> storageAccepts full_page (sessionStorage full_page) ''dom_snapshot''
        (serializeToString offline (fst (tryBuild offline True (atBuild full_page))))
   \<and> fst (domWithStyles offline True full_page) = Inl QuotaExceededError
   \<and> \<not> storageAvailable locked_page
   \<and> domWithStyles offline True locked_page = (Inl SecurityError, locked_page)"
proof -
  have z: "\<And>x. serializeToString offline x = ''<snapshot/>''"
    by (simp add: offline_def)
  have a: "storageAvailable (caching_page ''<html/>'')
      \<and> sessionStorage (caching_page ''<html/>'') ''allow_snapshot'' = Some ''true''
      \<and> sessionStorage (caching_page ''<html/>'') ''dom_snapshot'' = Some ''<html/>'' \<and> ''<html/>'' \<noteq> []"
    by (simp add: caching_page_def blank_page_def)
  have b: "storageAvailable blank_page \<and> sessionStorage blank_page ''allow_snapshot'' \<noteq> Some ''true''"
    "sessionStorage blank_page = Map.empty" "storageLog blank_page = []"
    by (simp_all add: blank_page_def)
  have c: "storageAvailable enabled_page \<and> sessionStorage enabled_page ''allow_snapshot'' = Some ''true''
      \<and> \<not> truthy (sessionStorage enabled_page ''dom_snapshot'')
      \<and> storageAccepts enabled_page (sessionStorage enabled_page) ''dom_snapshot''
        (serializeToString offline (fst (tryBuild offline True (atBuild enabled_page))))"
    by (simp add: enabled_page_def blank_page_def)
  have f: "storageAvailable full_page \<and> sessionStorage full_page ''allow_snapshot'' = Some ''true''
      \<and> \<not> truthy (sessionStorage full_page ''dom_snapshot'')
      \<and> \<not> storageAccepts full_page (sessionStorage full_page) ''dom_snapshot''
        (serializeToString offline (fst (tryBuild offline True (atBuild full_page))))"
    by (simp add: z) (simp add: full_page_def enabled_page_def blank_page_def)
  have l: "\<not> storageAvailable locked_page" by (simp add: locked_page_def)
  note t1 = snapshot_cache [of "caching_page ''<html/>''" offline True]
  note t2 = snapshot_cache [of blank_page offline True]
  note t3 = snapshot_cache [of enabled_page offline True]
  note t4 = snapshot_cache [of full_page offline True]
  note t5 = snapshot_cache [of locked_page offline True]
  have 1: "domWithStyles offline True (caching_page ''<html/>'') =
       (Inr ''<html/>'', (caching_page ''<html/>'')\<lparr>storageLog := storageLog (caching_page ''<html/>'')
           @ [GetItem ''allow_snapshot'', GetItem ''dom_snapshot'']\<rparr>)"
    using t1 a by blast
  have 2: "sessionStorage (snd (domWithStyles offline True blank_page)) = Map.empty
      \<and> storageLog (snd (domWithStyles offline True blank_page))
          = [GetItem ''allow_snapshot'', GetItem ''allow_snapshot'']"
    using t2 b by simp
  have 3: "fst (domWithStyles offline True enabled_page) = Inr ''<snapshot/>''
      \<and> sessionStorage (snd (domWithStyles offline True enabled_page)) ''dom_snapshot'' = Some ''<snapshot/>''"
    using t3 c by (simp add: z)
  have 4: "fst (domWithStyles offline False (snd (domWithStyles offline True enabled_page))) = Inr ''<snapshot/>''"
    using t3 c 3 by simp
  have 5: "doctype (snd (domWithStyles offline True (caching_page ''<html/>''))) = Some ''html''"
    by (simp add: 1) (simp add: caching_page_def blank_page_def)
  have 6: "fst (domWithStyles offline True full_page) = Inl QuotaExceededError"
    using t4 f by blast
  have 7: "domWithStyles offline True locked_page = (Inl SecurityError, locked_page)"
    using t5 l by blast
  show ?thesis
    using a b(1) c f l 1 2 3 4 5 6 7 by simp
qed

section \<open>Effects of a build on the live document\<close>

lemma finalize_tree:
  "finalize h opt node sheets w = (r, w1) \<Longrightarrow> head w \<noteq> JUndefined \<Longrightarrow> documentElement w1 = documentElement w"
  by (auto simp: finalize_def createDocument_def split: option.splits sum.splits)

lemma tryBuild_tree:
  "head w \<noteq> JUndefined \<Longrightarrow> documentElement (snd (tryBuild h opt w)) = documentElement w"
  by (auto simp: tryBuild_def build_def createDomElements_def initializeStyleSheets_collect
      createErrorDocument_eq split: prod.splits sum.splits if_splits dest: finalize_tree)

text \<open>
  C9. Claimed: a build never changes the live document. On the code, every build hands the
  live doctype node to createDocument, which moves it into the new document: a page that had
  a doctype has none afterwards. And where \<open>document.head\<close> is \<open>undefined\<close>, finalize
  appends a new head element to the live html element. (Where \<open>document.head\<close> is defined,
  the tree under the document element is left as it was: \<open>tryBuild_tree\<close>.)
\<close>

theorem build_changes_live_document:
  "doctype simple_page = Some ''html''
   \<and> doctype (snd (domWithStyles offline False simple_page)) = None
   \<and> documentElement (snd (domWithStyles offline False legacy_page)) =
       Element (plain ''HTML'')
         [Element (plain ''HEAD'') [], Element (plain ''BODY'') [Text ''hi''], Element (plain ''HEAD'') []]
   \<and> documentElement (snd (domWithStyles offline False legacy_page)) \<noteq> documentElement legacy_page"
proof -
  have s: "\<not> served simple_page" "\<not> served legacy_page"
    by (simp_all add: served_def simple_page_def legacy_page_def blank_page_def)
  have v: "storageAvailable simple_page" "storageAvailable legacy_page"
    "storageAvailable (atBuild legacy_page)"
    "sessionStorage (atBuild legacy_page) ''allow_snapshot'' \<noteq> Some ''true''"
    by (simp_all add: atBuild_def simple_page_def legacy_page_def blank_page_def)
  have a: "doctype (snd (domWithStyles offline False simple_page)) = None"
    using s v by (simp add: domWithStyles_doctype)
  have c: "deepCloneWithStyles Map.empty [] [] (documentElement legacy_page) =
     (Some (CElement ''HTML'' [] [] [CElement ''HEAD'' [] [] [], CElement ''BODY'' [] [] [CText ''hi'']]),
      Map.empty(StyleKey ''BODY'' None [] \<mapsto> []))"
    by (simp add: legacy_page_def simple_page_def blank_page_def plain_def toUpperCase_def
        toLowerCase_def ignoreTags_def noStyleTags_def updateStyle_def getDefaultStyle_def
        styleKey_def getAttribute_def getComputedStyle_def numberProperties_def hasStyle_def
        styleFrom.simps blankFrom.simps isBlankCharacter_def previousElementSibling_def
        nextElementSibling_def Let_def)
  have w: "styleSheets (atBuild legacy_page) = []" "head (atBuild legacy_page) = JUndefined"
    "documentElement (atBuild legacy_page) = documentElement legacy_page"
    "implicitGlobals offline"
    by (simp_all add: atBuild_def legacy_page_def simple_page_def blank_page_def offline_def)
  have d: "createDomElements offline (atBuild legacy_page) =
     (Inr (Some (CElement ''HTML'' [] [] [CElement ''HEAD'' [] [] [], CElement ''BODY'' [] [] [CText ''hi'']]), []),
      atBuild legacy_page)"
    by (simp add: createDomElements_def initializeStyleSheets_collect w c)
  have l: "appendHeadToLive ((atBuild legacy_page)\<lparr>doctype := None\<rparr>) =
     Inr ((atBuild legacy_page)\<lparr>doctype := None, documentElement :=
       Element (plain ''HTML'')
         [Element (plain ''HEAD'') [], Element (plain ''BODY'') [Text ''hi''], Element (plain ''HEAD'') []]\<rparr>)"
    by (simp add: appendHeadToLive_def w newHead_def plain_def)
       (simp add: legacy_page_def simple_page_def plain_def toLowerCase_def)
  have t: "documentElement (snd (tryBuild offline False (atBuild legacy_page))) =
       Element (plain ''HTML'')
         [Element (plain ''HEAD'') [], Element (plain ''BODY'') [Text ''hi''], Element (plain ''HEAD'') []]"
    by (simp add: tryBuild_def build_def d w finalize_def createDocument_def l getUsedStyles_nil)
  have b: "documentElement (snd (domWithStyles offline False legacy_page)) =
       Element (plain ''HTML'')
         [Element (plain ''HEAD'') [], Element (plain ''BODY'') [Text ''hi''], Element (plain ''HEAD'') []]"
    using s t v by (simp add: domWithStyles_eq rebuild_eq)
  have o: "documentElement legacy_page =
       Element (plain ''HTML'') [Element (plain ''HEAD'') [], Element (plain ''BODY'') [Text ''hi'']]"
    by (simp add: legacy_page_def simple_page_def)
  have p: "doctype simple_page = Some ''html''"
    by (simp add: simple_page_def blank_page_def)
  show ?thesis
    using a p by (simp add: b o)
qed

section \<open>The default style\<close>

lemma styleKey_note_div: "styleKey note_div = StyleKey ''DIV'' None [[''note'']]"
  by (simp add: styleKey_def getAttribute_def note_div_def sort_arrays_def)
lemma styleKey_red_note_div: "styleKey red_note_div = StyleKey ''DIV'' None [[''note'']]"
  by (simp add: styleKey_def getAttribute_def red_note_div_def sort_arrays_def)
lemma styleKey_ba_div: "styleKey ba_div = StyleKey ''DIV'' None [[''b'', ''a'']]"
  by (simp add: styleKey_def getAttribute_def ba_div_def sort_arrays_def)
lemma styleKey_ab_div: "styleKey ab_div = StyleKey ''DIV'' None [[''a'', ''b'']]"
  by (simp add: styleKey_def getAttribute_def ab_div_def sort_arrays_def)
lemma default_note_div: "fst (getDefaultStyle Map.empty note_div) = Some [(''color'', ''black'')]"
  by (simp add: getDefaultStyle_def Let_def getComputedStyle_def) (simp add: note_div_def)
lemma default_red_note_div: "fst (getDefaultStyle Map.empty red_note_div) = Some [(''color'', ''red'')]"
  by (simp add: getDefaultStyle_def Let_def getComputedStyle_def) (simp add: red_note_div_def)
lemma updateStyle_note_div: "styleSets (fst (updateStyle Map.empty (cloneNode (Element note_div [])) note_div)) = []"
  by (simp add: updateStyle_sets default_note_div numberProperties_def getComputedStyle_def)
     (simp add: note_div_def kept_def property_def getPropertyName_def getPropertyValue_def
       getComputedStyle_def item_def propertyValue_def isDefaultStyle_def isInlineStyle_def
       getAttribute_def)

text \<open>On a miss the style stored and returned is the computed style of the node itself.\<close>

lemma getDefaultStyle_miss:
  assumes "cache (styleKey e) = None"
  shows "getDefaultStyle cache e = (Some (getComputedStyle e), cache(styleKey e \<mapsto> getComputedStyle e))"
  using assms by (simp add: getDefaultStyle_def Let_def)

text \<open>A key that is in the cache gives the cached style again, and the cache stays as it is.\<close>

lemma getDefaultStyle_again:
  assumes "getDefaultStyle cache e = (d, cache1)" and "styleKey e2 = styleKey e"
  shows "getDefaultStyle cache1 e2 = (d, cache1)"
  using assms by (auto simp: getDefaultStyle_def Let_def split: if_splits)

text \<open>
  C2. Claimed: on a cache miss the baseline is the computed style of a new, empty element
  built from tag, id and class alone, under a key with the classes sorted. On the code the
  baseline stored on a miss is the computed style of the live node itself: two elements with
  the same tag, id and class but different computed styles get different baselines on a
  miss, the first element of a shape never differs from its baseline (no property of it is
  written to its clone), and the classes are not sorted, so the class texts "a b" and "b a"
  give different keys.
\<close>

theorem baseline_is_own_style:
  "styleKey note_div = styleKey red_note_div
   \<and> fst (getDefaultStyle Map.empty note_div) = Some [(''color'', ''black'')]
   \<and> fst (getDefaultStyle Map.empty red_note_div) = Some [(''color'', ''red'')]
   \<and> styleSets (fst (updateStyle Map.empty (cloneNode (Element note_div [])) note_div)) = []
   \<and> styleKey ba_div = StyleKey ''DIV'' None [[''b'', ''a'']]
   \<and> styleKey ab_div \<noteq> styleKey ba_div"
  by (simp add: styleKey_note_div styleKey_red_note_div styleKey_ba_div styleKey_ab_div
      default_note_div default_red_note_div updateStyle_note_div del: cloneNode.simps)

end
